theory Spec2Isabelle
  imports Complex_Main
begin

section \<open>The relational schema\<close>

text \<open>
  The store is the PostgreSQL schema of the migration: six tables, the function
  \<^verbatim>\<open>has_role\<close>, row-level-security policies and two triggers. A statement either
  raises an error, and then nothing of it is applied, or returns the new state; so every
  operation has the type \<open>db \<Rightarrow> error + db\<close>.

  The columns \<^verbatim>\<open>created_at\<close> and \<^verbatim>\<open>updated_at\<close> (and the trigger that maintains the
  latter) are left out: no constraint, policy or generated column reads them.
\<close>

datatype error =
    PolicyViolation
  | GeneratedAlways
  | NumericOverflow
  | StringTooLong
  | NotNullViolation
  | CheckViolation
  | UniqueViolation
  | ForeignKeyViolation

type_synonym uuid = string

type_synonym date = nat

datatype app_role = Admin | Teacher | Student

subsection \<open>Column types\<close>

text \<open>
  A \<^verbatim>\<open>DECIMAL(5,2)\<close> column holds a number of hundredths, of at most five digits. A
  numeric value assigned to it is first rounded to two decimal places, ties away from
  zero, and the assignment fails when the rounded value needs more than three digits
  before the point. Supplied numeric values are rationals.
\<close>

definition numeric_round2 :: "rat \<Rightarrow> int" where
  "numeric_round2 q =
     (if 0 \<le> q then \<lfloor>q * 100 + 1 / 2\<rfloor> else - \<lfloor>- q * 100 + 1 / 2\<rfloor>)"

definition decimal_5_2 :: "rat \<Rightarrow> error + int" where
  "decimal_5_2 q =
     (let h = numeric_round2 q
      in if \<bar>h\<bar> < 100000 then Inr h else Inl NumericOverflow)"

definition dec_value :: "int \<Rightarrow> rat" where
  "dec_value h = of_int h / 100"

definition decimal_5_2_opt :: "rat option \<Rightarrow> error + int option" where
  "decimal_5_2_opt v =
     (case v of
        None \<Rightarrow> Inr None
      | Some q \<Rightarrow> (case decimal_5_2 q of Inl e \<Rightarrow> Inl e | Inr h \<Rightarrow> Inr (Some h)))"

text \<open>
  A string assigned to a \<^verbatim>\<open>VARCHAR(n)\<close> column is stored as it is when it has at most
  \<open>n\<close> characters; a longer one is cut to \<open>n\<close> characters when everything beyond is
  spaces, and is an error otherwise.
\<close>

definition varchar :: "nat \<Rightarrow> string \<Rightarrow> error + string" where
  "varchar n s =
     (if length s \<le> n then Inr s
      else if list_all (\<lambda>c. c = CHR '' '') (drop n s) then Inr (take n s)
      else Inl StringTooLong)"

definition varchar_opt :: "nat \<Rightarrow> string option \<Rightarrow> error + string option" where
  "varchar_opt n v =
     (case v of
        None \<Rightarrow> Inr None
      | Some s \<Rightarrow> (case varchar n s of Inl e \<Rightarrow> Inl e | Inr t \<Rightarrow> Inr (Some t)))"

text \<open>
  SQL's three-valued logic: a comparison with NULL is NULL, \<^verbatim>\<open>AND\<close> is false as soon
  as one side is false, and a \<^verbatim>\<open>CHECK\<close> constraint is violated only when its
  expression is false.
\<close>

definition sql_ge :: "int option \<Rightarrow> int option \<Rightarrow> bool option" where
  "sql_ge a b = (case (a, b) of (Some x, Some y) \<Rightarrow> Some (x \<ge> y) | _ \<Rightarrow> None)"

definition sql_le :: "int option \<Rightarrow> int option \<Rightarrow> bool option" where
  "sql_le a b = (case (a, b) of (Some x, Some y) \<Rightarrow> Some (x \<le> y) | _ \<Rightarrow> None)"

definition sql_and :: "bool option \<Rightarrow> bool option \<Rightarrow> bool option" where
  "sql_and a b =
     (if a = Some False \<or> b = Some False then Some False
      else if a = Some True \<and> b = Some True then Some True
      else None)"

definition check_passes :: "bool option \<Rightarrow> bool" where
  "check_passes v = (v \<noteq> Some False)"

subsection \<open>Rows and the state\<close>

record auth_user =
  au_id :: uuid
  au_email :: "string option"
  au_raw_user_meta_data :: "string \<rightharpoonup> string"

record profile =
  p_id :: uuid
  p_username :: string
  p_first_name :: "string option"
  p_last_name :: "string option"
  p_email :: "string option"

record user_role =
  ur_id :: uuid
  ur_user_id :: uuid
  ur_role :: app_role

record student =
  st_id :: uuid
  st_first_name :: string
  st_last_name :: string
  st_id_number :: string
  st_email :: string
  st_course :: string

record subject =
  su_id :: uuid
  su_name :: string
  su_instructor :: string

record attendance_row =
  at_id :: uuid
  at_date :: date
  at_present :: bool
  at_student_id :: uuid
  at_subject_id :: uuid

record grade =
  g_id :: uuid
  g_partial_score :: "int option"
  g_exam_score :: "int option"
  g_average :: "int option"
  g_student_id :: uuid
  g_subject_id :: uuid

record db =
  auth_users :: "auth_user list"
  profiles :: "profile list"
  user_roles :: "user_role list"
  students :: "student list"
  subjects :: "subject list"
  attendance :: "attendance_row list"
  grades :: "grade list"


subsection \<open>Sequencing of fallible steps\<close>

definition and_then :: "error + 'a \<Rightarrow> ('a \<Rightarrow> error + 'b) \<Rightarrow> error + 'b" where
  "and_then r f = (case r of Inl e \<Rightarrow> Inl e | Inr x \<Rightarrow> f x)"

fun collect :: "('a \<Rightarrow> error + 'b) \<Rightarrow> 'a list \<Rightarrow> error + 'b list" where
  "collect f [] = Inr []"
| "collect f (x # xs) =
     and_then (f x) (\<lambda>y. and_then (collect f xs) (\<lambda>ys. Inr (y # ys)))"

definition state_after :: "db \<Rightarrow> error + db \<Rightarrow> db" where
  "state_after d r = (case r of Inl e \<Rightarrow> d | Inr d' \<Rightarrow> d')"

section \<open>Authorization\<close>

text \<open>
  A caller is the database role of the request together with the account id that
  \<^verbatim>\<open>auth.uid()\<close> returns for it. Every policy of the migration is granted
  \<^verbatim>\<open>TO authenticated\<close>, so none applies to an anonymous request.
\<close>

datatype caller = Anon | Authenticated uuid

definition has_role :: "db \<Rightarrow> uuid \<Rightarrow> app_role \<Rightarrow> bool" where
  "has_role d u r = list_ex (\<lambda>x. ur_user_id x = u \<and> ur_role x = r) (user_roles d)"

datatype table_name = Students | Subjects | Attendance | Grades

text \<open>
  The \<^verbatim>\<open>FOR SELECT ... USING (true)\<close> policy of each of the four tables, and its
  \<^verbatim>\<open>FOR ALL\<close> policy. Their expressions read no column of the row.
\<close>

fun view_policy :: "table_name \<Rightarrow> db \<Rightarrow> caller \<Rightarrow> bool" where
  "view_policy Students d c = (case c of Anon \<Rightarrow> False | Authenticated u \<Rightarrow> True)"
| "view_policy Subjects d c = (case c of Anon \<Rightarrow> False | Authenticated u \<Rightarrow> True)"
| "view_policy Attendance d c = (case c of Anon \<Rightarrow> False | Authenticated u \<Rightarrow> True)"
| "view_policy Grades d c = (case c of Anon \<Rightarrow> False | Authenticated u \<Rightarrow> True)"

fun manage_policy :: "table_name \<Rightarrow> db \<Rightarrow> caller \<Rightarrow> bool" where
  "manage_policy Students d c =
     (case c of Anon \<Rightarrow> False
      | Authenticated u \<Rightarrow> has_role d u Admin \<or> has_role d u Teacher)"
| "manage_policy Subjects d c =
     (case c of Anon \<Rightarrow> False
      | Authenticated u \<Rightarrow> has_role d u Admin \<or> has_role d u Teacher)"
| "manage_policy Attendance d c =
     (case c of Anon \<Rightarrow> False
      | Authenticated u \<Rightarrow> has_role d u Admin \<or> has_role d u Teacher)"
| "manage_policy Grades d c =
     (case c of Anon \<Rightarrow> False
      | Authenticated u \<Rightarrow> has_role d u Admin \<or> has_role d u Teacher)"

text \<open>
  Policies are permissive: a command is allowed on a row when one of the policies for
  that command allows it. A \<^verbatim>\<open>FOR ALL\<close> policy counts for every command, and its
  \<^verbatim>\<open>USING\<close> expression is also the check on new rows, since none of the policies
  has a \<^verbatim>\<open>WITH CHECK\<close> of its own.
\<close>

definition may_read :: "table_name \<Rightarrow> db \<Rightarrow> caller \<Rightarrow> bool" where
  "may_read t d c = (view_policy t d c \<or> manage_policy t d c)"

definition may_write :: "table_name \<Rightarrow> db \<Rightarrow> caller \<Rightarrow> bool" where
  "may_write t d c = manage_policy t d c"

text \<open>The two policies of \<^verbatim>\<open>profiles\<close>; there is none for insert or delete.\<close>

definition profiles_view_policy :: "caller \<Rightarrow> profile \<Rightarrow> bool" where
  "profiles_view_policy c p = (case c of Anon \<Rightarrow> False | Authenticated u \<Rightarrow> True)"

definition profiles_update_policy :: "caller \<Rightarrow> profile \<Rightarrow> bool" where
  "profiles_update_policy c p = (case c of Anon \<Rightarrow> False | Authenticated u \<Rightarrow> u = p_id p)"

section \<open>Statements\<close>

text \<open>
  An update or delete names its rows by a \<^verbatim>\<open>WHERE\<close> predicate. Rows the caller's
  policy does not allow are invisible to it: the statement skips them without an
  error. An insert of a row the policy does not allow is an error. The values that an
  update sets are parameters of the statement, as the client sends them: they are
  converted to the type of the column for each row that the statement reaches.
\<close>

definition sql_update ::
  "('r \<Rightarrow> bool) \<Rightarrow> ('r \<Rightarrow> bool) \<Rightarrow> ('r \<Rightarrow> error + 'r) \<Rightarrow> 'r list \<Rightarrow> error + 'r list" where
  "sql_update allowed wher upd rows =
     collect (\<lambda>r. if allowed r \<and> wher r then upd r else Inr r) rows"

definition sql_delete :: "('r \<Rightarrow> bool) \<Rightarrow> ('r \<Rightarrow> bool) \<Rightarrow> 'r list \<Rightarrow> 'r list" where
  "sql_delete allowed wher rows = filter (\<lambda>r. \<not> (allowed r \<and> wher r)) rows"

subsection \<open>Grades\<close>

text \<open>
  What an insert supplies: \<open>None\<close> is NULL (or a column left out). For the generated
  column \<open>gi_average = None\<close> says that the statement does not mention it and
  \<open>Some v\<close> that it supplies \<open>v\<close>. The id of the new row is an argument: it is supplied or
  drawn by \<^verbatim>\<open>gen_random_uuid()\<close>.
\<close>

record grade_input =
  gi_partial_score :: "rat option"
  gi_exam_score :: "rat option"
  gi_average :: "rat option option"
  gi_student_id :: "uuid option"
  gi_subject_id :: "uuid option"

text \<open>
  What an update sets, of the two scores and the average: \<open>None\<close> leaves the column as
  it is.
\<close>

record grade_patch =
  gp_partial_score :: "rat option option"
  gp_exam_score :: "rat option option"
  gp_average :: "rat option option"

text \<open>
  The two \<^verbatim>\<open>CHECK\<close> constraints, on stored values: the bounds 0 and 100 are 0 and
  10000 hundredths.
\<close>

definition grades_partial_score_check :: "int option \<Rightarrow> bool" where
  "grades_partial_score_check p =
     check_passes (sql_and (sql_ge p (Some 0)) (sql_le p (Some 10000)))"

definition grades_exam_score_check :: "int option \<Rightarrow> bool" where
  "grades_exam_score_check x =
     check_passes (sql_and (sql_ge x (Some 0)) (sql_le x (Some 10000)))"

text \<open>
  The generation expression \<^verbatim>\<open>(partial_score + exam_score) / 2\<close>, assigned to a
  \<^verbatim>\<open>DECIMAL(5,2)\<close> column. It is NULL when one of the scores is.
\<close>

definition grades_average :: "int option \<Rightarrow> int option \<Rightarrow> error + int option" where
  "grades_average p x =
     (case (p, x) of
        (Some a, Some b) \<Rightarrow> decimal_5_2_opt (Some ((dec_value a + dec_value b) / 2))
      | _ \<Rightarrow> Inr None)"

definition insert_into_grades :: "caller \<Rightarrow> uuid \<Rightarrow> grade_input \<Rightarrow> db \<Rightarrow> error + db" where
  "insert_into_grades c new_id inp d =
     (if gi_average inp \<noteq> None then Inl GeneratedAlways
      else
        and_then (decimal_5_2_opt (gi_partial_score inp)) (\<lambda>p.
        and_then (decimal_5_2_opt (gi_exam_score inp)) (\<lambda>x.
        and_then (grades_average p x) (\<lambda>avg.
          if \<not> may_write Grades d c then Inl PolicyViolation
          else
            (case (gi_student_id inp, gi_subject_id inp) of
               (Some s, Some j) \<Rightarrow>
                 if \<not> (grades_partial_score_check p \<and> grades_exam_score_check x)
                 then Inl CheckViolation
                 else if list_ex (\<lambda>g. g_id g = new_id) (grades d)
                       \<or> list_ex (\<lambda>g. g_student_id g = s \<and> g_subject_id g = j) (grades d)
                 then Inl UniqueViolation
                 else if \<not> list_ex (\<lambda>t. st_id t = s) (students d)
                       \<or> \<not> list_ex (\<lambda>t. su_id t = j) (subjects d)
                 then Inl ForeignKeyViolation
                 else Inr (d\<lparr>grades := grades d @
                        [\<lparr>g_id = new_id, g_partial_score = p, g_exam_score = x,
                          g_average = avg, g_student_id = s, g_subject_id = j\<rparr>]\<rparr>)
             | _ \<Rightarrow> Inl NotNullViolation)))))"

definition grades_update_row :: "grade_patch \<Rightarrow> grade \<Rightarrow> error + grade" where
  "grades_update_row pt g =
     and_then (case gp_partial_score pt of
                 None \<Rightarrow> Inr (g_partial_score g) | Some v \<Rightarrow> decimal_5_2_opt v) (\<lambda>p.
     and_then (case gp_exam_score pt of
                 None \<Rightarrow> Inr (g_exam_score g) | Some v \<Rightarrow> decimal_5_2_opt v) (\<lambda>x.
     and_then (grades_average p x) (\<lambda>avg.
       if grades_partial_score_check p \<and> grades_exam_score_check x
       then Inr (g\<lparr>g_partial_score := p, g_exam_score := x, g_average := avg\<rparr>)
       else Inl CheckViolation)))"

definition update_grades ::
  "caller \<Rightarrow> (grade \<Rightarrow> bool) \<Rightarrow> grade_patch \<Rightarrow> db \<Rightarrow> error + db" where
  "update_grades c wher pt d =
     (if gp_average pt \<noteq> None then Inl GeneratedAlways
      else
        and_then (sql_update (\<lambda>g. may_write Grades d c) wher (grades_update_row pt) (grades d))
          (\<lambda>gs. Inr (d\<lparr>grades := gs\<rparr>)))"

definition delete_from_grades :: "caller \<Rightarrow> (grade \<Rightarrow> bool) \<Rightarrow> db \<Rightarrow> error + db" where
  "delete_from_grades c wher d =
     Inr (d\<lparr>grades := sql_delete (\<lambda>g. may_write Grades d c) wher (grades d)\<rparr>)"

subsection \<open>Students\<close>

text \<open>
  An insert supplies each column or leaves it NULL (\<open>None\<close>). A patch sets a column
  (\<open>Some\<close>) or leaves it (\<open>None\<close>); it cannot set one of these \<^verbatim>\<open>NOT NULL\<close> columns
  to NULL.
\<close>

record student_input =
  si_first_name :: "string option"
  si_last_name :: "string option"
  si_id_number :: "string option"
  si_email :: "string option"
  si_course :: "string option"

record student_patch =
  sp_first_name :: "string option"
  sp_last_name :: "string option"
  sp_id_number :: "string option"
  sp_email :: "string option"
  sp_course :: "string option"

definition insert_into_students ::
  "caller \<Rightarrow> uuid \<Rightarrow> student_input \<Rightarrow> db \<Rightarrow> error + db" where
  "insert_into_students c new_id inp d =
     and_then (varchar_opt 100 (si_first_name inp)) (\<lambda>fn.
     and_then (varchar_opt 100 (si_last_name inp)) (\<lambda>ln.
     and_then (varchar_opt 20 (si_id_number inp)) (\<lambda>idn.
     and_then (varchar_opt 100 (si_email inp)) (\<lambda>em.
     and_then (varchar_opt 100 (si_course inp)) (\<lambda>co.
       if \<not> may_write Students d c then Inl PolicyViolation
       else
         (case (fn, ln, idn, em, co) of
            (Some fn', Some ln', Some idn', Some em', Some co') \<Rightarrow>
              if list_ex (\<lambda>t. st_id t = new_id \<or> st_id_number t = idn') (students d)
              then Inl UniqueViolation
              else Inr (d\<lparr>students := students d @
                     [\<lparr>st_id = new_id, st_first_name = fn', st_last_name = ln',
                       st_id_number = idn', st_email = em', st_course = co'\<rparr>]\<rparr>)
          | _ \<Rightarrow> Inl NotNullViolation))))))"

definition set_varchar :: "nat \<Rightarrow> string option \<Rightarrow> string \<Rightarrow> error + string" where
  "set_varchar n new old = (case new of None \<Rightarrow> Inr old | Some s \<Rightarrow> varchar n s)"

definition update_students_row :: "student_patch \<Rightarrow> student \<Rightarrow> error + student" where
  "update_students_row pt t =
     and_then (set_varchar 100 (sp_first_name pt) (st_first_name t)) (\<lambda>fn.
     and_then (set_varchar 100 (sp_last_name pt) (st_last_name t)) (\<lambda>ln.
     and_then (set_varchar 20 (sp_id_number pt) (st_id_number t)) (\<lambda>idn.
     and_then (set_varchar 100 (sp_email pt) (st_email t)) (\<lambda>em.
     and_then (set_varchar 100 (sp_course pt) (st_course t)) (\<lambda>co.
       Inr (t\<lparr>st_first_name := fn, st_last_name := ln, st_id_number := idn,
              st_email := em, st_course := co\<rparr>))))))"

text \<open>
  The table satisfies its unique constraints before a statement, so an update violates
  one exactly when the table it leaves has a repeated key.
\<close>

definition update_students ::
  "caller \<Rightarrow> (student \<Rightarrow> bool) \<Rightarrow> student_patch \<Rightarrow> db \<Rightarrow> error + db" where
  "update_students c wher pt d =
     and_then (sql_update (\<lambda>t. may_write Students d c) wher (update_students_row pt)
                 (students d)) (\<lambda>ts.
       if \<not> distinct (map st_id_number ts) then Inl UniqueViolation
       else Inr (d\<lparr>students := ts\<rparr>))"

text \<open>
  \<^verbatim>\<open>ON DELETE CASCADE\<close>: the attendance and grade rows that reference a deleted
  student go with it. The cascade is the store's own action and no policy filters it.
\<close>

definition delete_from_students :: "caller \<Rightarrow> (student \<Rightarrow> bool) \<Rightarrow> db \<Rightarrow> error + db" where
  "delete_from_students c wher d =
     (let gone = map st_id (filter (\<lambda>t. may_write Students d c \<and> wher t) (students d))
      in Inr (d\<lparr>students := sql_delete (\<lambda>t. may_write Students d c) wher (students d),
               attendance := filter (\<lambda>a. at_student_id a \<notin> set gone) (attendance d),
               grades := filter (\<lambda>g. g_student_id g \<notin> set gone) (grades d)\<rparr>))"

subsection \<open>Subjects\<close>

record subject_input =
  ji_name :: "string option"
  ji_instructor :: "string option"

record subject_patch =
  jp_name :: "string option"
  jp_instructor :: "string option"

definition insert_into_subjects ::
  "caller \<Rightarrow> uuid \<Rightarrow> subject_input \<Rightarrow> db \<Rightarrow> error + db" where
  "insert_into_subjects c new_id inp d =
     and_then (varchar_opt 100 (ji_name inp)) (\<lambda>nm.
     and_then (varchar_opt 100 (ji_instructor inp)) (\<lambda>ins.
       if \<not> may_write Subjects d c then Inl PolicyViolation
       else
         (case (nm, ins) of
            (Some nm', Some ins') \<Rightarrow>
              if list_ex (\<lambda>j. su_id j = new_id) (subjects d) then Inl UniqueViolation
              else Inr (d\<lparr>subjects := subjects d @
                     [\<lparr>su_id = new_id, su_name = nm', su_instructor = ins'\<rparr>]\<rparr>)
          | _ \<Rightarrow> Inl NotNullViolation)))"

definition update_subjects_row :: "subject_patch \<Rightarrow> subject \<Rightarrow> error + subject" where
  "update_subjects_row pt j =
     and_then (set_varchar 100 (jp_name pt) (su_name j)) (\<lambda>nm.
     and_then (set_varchar 100 (jp_instructor pt) (su_instructor j)) (\<lambda>ins.
       Inr (j\<lparr>su_name := nm, su_instructor := ins\<rparr>)))"

definition update_subjects ::
  "caller \<Rightarrow> (subject \<Rightarrow> bool) \<Rightarrow> subject_patch \<Rightarrow> db \<Rightarrow> error + db" where
  "update_subjects c wher pt d =
     and_then (sql_update (\<lambda>j. may_write Subjects d c) wher (update_subjects_row pt)
                 (subjects d)) (\<lambda>js.
       Inr (d\<lparr>subjects := js\<rparr>))"

definition delete_from_subjects :: "caller \<Rightarrow> (subject \<Rightarrow> bool) \<Rightarrow> db \<Rightarrow> error + db" where
  "delete_from_subjects c wher d =
     (let gone = map su_id (filter (\<lambda>j. may_write Subjects d c \<and> wher j) (subjects d))
      in Inr (d\<lparr>subjects := sql_delete (\<lambda>j. may_write Subjects d c) wher (subjects d),
               attendance := filter (\<lambda>a. at_subject_id a \<notin> set gone) (attendance d),
               grades := filter (\<lambda>g. g_subject_id g \<notin> set gone) (grades d)\<rparr>))"

subsection \<open>Attendance\<close>

text \<open>\<open>ai_present = None\<close> leaves the column out, and the default \<^verbatim>\<open>false\<close> is stored.\<close>

record attendance_input =
  ai_date :: "date option"
  ai_present :: "bool option"
  ai_student_id :: "uuid option"
  ai_subject_id :: "uuid option"

record attendance_patch =
  ap_date :: "date option"
  ap_present :: "bool option"

definition insert_into_attendance ::
  "caller \<Rightarrow> uuid \<Rightarrow> attendance_input \<Rightarrow> db \<Rightarrow> error + db" where
  "insert_into_attendance c new_id inp d =
     (if \<not> may_write Attendance d c then Inl PolicyViolation
      else
        (case (ai_date inp, ai_student_id inp, ai_subject_id inp) of
           (Some dt, Some s, Some j) \<Rightarrow>
             if list_ex (\<lambda>a. at_id a = new_id) (attendance d)
                \<or> list_ex (\<lambda>a. at_date a = dt \<and> at_student_id a = s \<and> at_subject_id a = j)
                     (attendance d)
             then Inl UniqueViolation
             else if \<not> list_ex (\<lambda>t. st_id t = s) (students d)
                   \<or> \<not> list_ex (\<lambda>t. su_id t = j) (subjects d)
             then Inl ForeignKeyViolation
             else Inr (d\<lparr>attendance := attendance d @
                    [\<lparr>at_id = new_id, at_date = dt,
                      at_present = (case ai_present inp of None \<Rightarrow> False | Some b \<Rightarrow> b),
                      at_student_id = s, at_subject_id = j\<rparr>]\<rparr>)
         | _ \<Rightarrow> Inl NotNullViolation))"

definition update_attendance_row :: "attendance_patch \<Rightarrow> attendance_row \<Rightarrow> error + attendance_row" where
  "update_attendance_row pt a =
     Inr (a\<lparr>at_date := (case ap_date pt of None \<Rightarrow> at_date a | Some dt \<Rightarrow> dt),
            at_present := (case ap_present pt of None \<Rightarrow> at_present a | Some b \<Rightarrow> b)\<rparr>)"

definition update_attendance ::
  "caller \<Rightarrow> (attendance_row \<Rightarrow> bool) \<Rightarrow> attendance_patch \<Rightarrow> db \<Rightarrow> error + db" where
  "update_attendance c wher pt d =
     and_then (sql_update (\<lambda>a. may_write Attendance d c) wher (update_attendance_row pt)
                 (attendance d)) (\<lambda>as.
       if \<not> distinct (map (\<lambda>a. (at_date a, at_student_id a, at_subject_id a)) as)
       then Inl UniqueViolation
       else Inr (d\<lparr>attendance := as\<rparr>))"

definition delete_from_attendance ::
  "caller \<Rightarrow> (attendance_row \<Rightarrow> bool) \<Rightarrow> db \<Rightarrow> error + db" where
  "delete_from_attendance c wher d =
     Inr (d\<lparr>attendance := sql_delete (\<lambda>a. may_write Attendance d c) wher (attendance d)\<rparr>)"

subsection \<open>Profiles and the sign-up trigger\<close>

record profile_patch =
  pp_username :: "string option"
  pp_first_name :: "string option option"
  pp_last_name :: "string option option"
  pp_email :: "string option option"

definition set_varchar_opt ::
  "nat \<Rightarrow> string option option \<Rightarrow> string option \<Rightarrow> error + string option" where
  "set_varchar_opt n new old = (case new of None \<Rightarrow> Inr old | Some v \<Rightarrow> varchar_opt n v)"

definition update_profiles_row :: "caller \<Rightarrow> profile_patch \<Rightarrow> profile \<Rightarrow> error + profile" where
  "update_profiles_row c pt p =
     and_then (set_varchar 50 (pp_username pt) (p_username p)) (\<lambda>un.
     and_then (set_varchar_opt 100 (pp_first_name pt) (p_first_name p)) (\<lambda>fn.
     and_then (set_varchar_opt 100 (pp_last_name pt) (p_last_name p)) (\<lambda>ln.
     and_then (set_varchar_opt 100 (pp_email pt) (p_email p)) (\<lambda>em.
       (let p' = p\<lparr>p_username := un, p_first_name := fn, p_last_name := ln, p_email := em\<rparr>
        in if profiles_update_policy c p' then Inr p' else Inl PolicyViolation)))))"

definition update_profiles ::
  "caller \<Rightarrow> (profile \<Rightarrow> bool) \<Rightarrow> profile_patch \<Rightarrow> db \<Rightarrow> error + db" where
  "update_profiles c wher pt d =
     and_then (sql_update (profiles_update_policy c) wher (update_profiles_row c pt)
                 (profiles d)) (\<lambda>ps.
       if \<not> distinct (map p_username ps) then Inl UniqueViolation
       else Inr (d\<lparr>profiles := ps\<rparr>))"

text \<open>
  \<^verbatim>\<open>SPLIT_PART(s, '@', 1)\<close> is the text before the first \<^verbatim>\<open>@\<close>, and all of \<open>s\<close> when
  it has none.
\<close>

definition split_part_1 :: "char \<Rightarrow> string \<Rightarrow> string" where
  "split_part_1 sep s = takeWhile (\<lambda>c. c \<noteq> sep) s"

text \<open>
  The account table belongs to the authentication service; of an account row the
  trigger reads the id, the e-mail address and the metadata object, where
  \<open>au_raw_user_meta_data u k\<close> is the text that \<^verbatim>\<open>raw_user_meta_data->>k\<close> yields
  (\<open>None\<close> for NULL: the key is missing or holds a JSON null). The function is
  \<^verbatim>\<open>SECURITY DEFINER\<close>: no policy applies to its insert.
\<close>

definition new_username :: "auth_user \<Rightarrow> string option" where
  "new_username new =
     (case au_raw_user_meta_data new ''username'' of
        Some n \<Rightarrow> Some n
      | None \<Rightarrow> map_option (split_part_1 CHR ''@'') (au_email new))"

definition handle_new_user :: "auth_user \<Rightarrow> db \<Rightarrow> error + db" where
  "handle_new_user new d =
     and_then (varchar_opt 50 (new_username new)) (\<lambda>un.
     and_then (varchar_opt 100 (au_raw_user_meta_data new ''first_name'')) (\<lambda>fn.
     and_then (varchar_opt 100 (au_raw_user_meta_data new ''last_name'')) (\<lambda>ln.
     and_then (varchar_opt 100 (au_email new)) (\<lambda>em.
       (case un of
          None \<Rightarrow> Inl NotNullViolation
        | Some un' \<Rightarrow>
            if list_ex (\<lambda>p. p_id p = au_id new \<or> p_username p = un') (profiles d)
            then Inl UniqueViolation
            else if \<not> list_ex (\<lambda>a. au_id a = au_id new) (auth_users d)
            then Inl ForeignKeyViolation
            else Inr (d\<lparr>profiles := profiles d @
                   [\<lparr>p_id = au_id new, p_username = un', p_first_name = fn,
                     p_last_name = ln, p_email = em\<rparr>]\<rparr>))))))"

text \<open>
  The trigger \<^verbatim>\<open>on_auth_user_created\<close> runs \<^verbatim>\<open>handle_new_user\<close> after the insert
  of each account row, inside the inserting statement: when the function fails, so
  does the insert.
\<close>

definition insert_into_auth_users :: "auth_user \<Rightarrow> db \<Rightarrow> error + db" where
  "insert_into_auth_users new d =
     (if list_ex (\<lambda>a. au_id a = au_id new) (auth_users d) then Inl UniqueViolation
      else handle_new_user new (d\<lparr>auth_users := auth_users d @ [new]\<rparr>))"

subsection \<open>The statements of the model\<close>

datatype statement =
    InsertStudent caller uuid student_input
  | UpdateStudents caller "student \<Rightarrow> bool" student_patch
  | DeleteStudents caller "student \<Rightarrow> bool"
  | InsertSubject caller uuid subject_input
  | UpdateSubjects caller "subject \<Rightarrow> bool" subject_patch
  | DeleteSubjects caller "subject \<Rightarrow> bool"
  | InsertAttendance caller uuid attendance_input
  | UpdateAttendance caller "attendance_row \<Rightarrow> bool" attendance_patch
  | DeleteAttendance caller "attendance_row \<Rightarrow> bool"
  | InsertGrade caller uuid grade_input
  | UpdateGrades caller "grade \<Rightarrow> bool" grade_patch
  | DeleteGrades caller "grade \<Rightarrow> bool"
  | UpdateProfiles caller "profile \<Rightarrow> bool" profile_patch
  | InsertAuthUser auth_user

fun exec :: "statement \<Rightarrow> db \<Rightarrow> error + db" where
  "exec (InsertStudent c i inp) d = insert_into_students c i inp d"
| "exec (UpdateStudents c w pt) d = update_students c w pt d"
| "exec (DeleteStudents c w) d = delete_from_students c w d"
| "exec (InsertSubject c i inp) d = insert_into_subjects c i inp d"
| "exec (UpdateSubjects c w pt) d = update_subjects c w pt d"
| "exec (DeleteSubjects c w) d = delete_from_subjects c w d"
| "exec (InsertAttendance c i inp) d = insert_into_attendance c i inp d"
| "exec (UpdateAttendance c w pt) d = update_attendance c w pt d"
| "exec (DeleteAttendance c w) d = delete_from_attendance c w d"
| "exec (InsertGrade c i inp) d = insert_into_grades c i inp d"
| "exec (UpdateGrades c w pt) d = update_grades c w pt d"
| "exec (DeleteGrades c w) d = delete_from_grades c w d"
| "exec (UpdateProfiles c w pt) d = update_profiles c w pt d"
| "exec (InsertAuthUser new) d = insert_into_auth_users new d"

text \<open>The table a statement writes to, when it is one of the four, and who issues it.\<close>

fun written_table :: "statement \<Rightarrow> (table_name \<times> caller) option" where
  "written_table (InsertStudent c i inp) = Some (Students, c)"
| "written_table (UpdateStudents c w pt) = Some (Students, c)"
| "written_table (DeleteStudents c w) = Some (Students, c)"
| "written_table (InsertSubject c i inp) = Some (Subjects, c)"
| "written_table (UpdateSubjects c w pt) = Some (Subjects, c)"
| "written_table (DeleteSubjects c w) = Some (Subjects, c)"
| "written_table (InsertAttendance c i inp) = Some (Attendance, c)"
| "written_table (UpdateAttendance c w pt) = Some (Attendance, c)"
| "written_table (DeleteAttendance c w) = Some (Attendance, c)"
| "written_table (InsertGrade c i inp) = Some (Grades, c)"
| "written_table (UpdateGrades c w pt) = Some (Grades, c)"
| "written_table (DeleteGrades c w) = Some (Grades, c)"
| "written_table (UpdateProfiles c w pt) = None"
| "written_table (InsertAuthUser new) = None"

section \<open>The pages\<close>

text \<open>
  A handler of a page is a function from the page's state and the answer of the store
  to the list of things it does, in order: the request it sends, the notifications it
  shows, the state it resets and the fetch it starts. The answer \<open>err\<close> is the
  \<^verbatim>\<open>error\<close> field of the response: \<open>None\<close> when the request succeeded, the message
  otherwise.
\<close>

record student_form =
  sf_first_name :: string
  sf_last_name :: string
  sf_id_number :: string
  sf_email :: string
  sf_course :: string

record subject_form =
  jf_name :: string
  jf_instructor :: string

record attendance_record =
  ar_date :: date
  ar_student_id :: uuid
  ar_subject_id :: uuid
  ar_present :: bool

record grade_record =
  gr_student_id :: uuid
  gr_subject_id :: uuid
  gr_partial_score :: rat
  gr_exam_score :: rat

datatype ui_effect =
    StudentsUpdate uuid student_form
  | StudentsInsert student_form
  | StudentsDelete uuid
  | SubjectsUpdate uuid subject_form
  | SubjectsInsert subject_form
  | SubjectsDelete uuid
  | AttendanceUpsert "attendance_record list"
  | GradesUpsert "grade_record list"
  | FetchStudents
  | FetchSubjects
  | FetchAttendance
  | FetchGrades
  | Toast string string
  | SetIsDialogOpen bool
  | SetEditingNull
  | ResetFormData

subsection \<open>Students and Subjects\<close>

definition students_handleSubmit ::
  "student option \<Rightarrow> student_form \<Rightarrow> string option \<Rightarrow> ui_effect list" where
  "students_handleSubmit editingStudent formData err =
     (case editingStudent of
        Some st \<Rightarrow>
          StudentsUpdate (st_id st) formData #
          (case err of
             Some msg \<Rightarrow> [Toast ''Error'' msg]
           | None \<Rightarrow>
               [Toast ''Success'' ''Student updated successfully'',
                SetIsDialogOpen False, SetEditingNull, ResetFormData, FetchStudents])
      | None \<Rightarrow>
          StudentsInsert formData #
          (case err of
             Some msg \<Rightarrow> [Toast ''Error'' msg]
           | None \<Rightarrow>
               [Toast ''Success'' ''Student added successfully'',
                SetIsDialogOpen False, SetEditingNull, ResetFormData, FetchStudents]))"

definition students_handleDelete :: "uuid \<Rightarrow> bool \<Rightarrow> string option \<Rightarrow> ui_effect list" where
  "students_handleDelete sid confirmed err =
     (if confirmed then
        StudentsDelete sid #
        (case err of
           Some msg \<Rightarrow> [Toast ''Error'' msg]
         | None \<Rightarrow> [Toast ''Success'' ''Student deleted successfully'', FetchStudents])
      else [])"

definition subjects_handleSubmit ::
  "subject option \<Rightarrow> subject_form \<Rightarrow> string option \<Rightarrow> ui_effect list" where
  "subjects_handleSubmit editingSubject formData err =
     (case editingSubject of
        Some sj \<Rightarrow>
          SubjectsUpdate (su_id sj) formData #
          (case err of
             Some msg \<Rightarrow> [Toast ''Error'' msg]
           | None \<Rightarrow>
               [Toast ''Success'' ''Subject updated successfully'',
                SetIsDialogOpen False, SetEditingNull, ResetFormData, FetchSubjects])
      | None \<Rightarrow>
          SubjectsInsert formData #
          (case err of
             Some msg \<Rightarrow> [Toast ''Error'' msg]
           | None \<Rightarrow>
               [Toast ''Success'' ''Subject added successfully'',
                SetIsDialogOpen False, SetEditingNull, ResetFormData, FetchSubjects]))"

definition subjects_handleDelete :: "uuid \<Rightarrow> bool \<Rightarrow> string option \<Rightarrow> ui_effect list" where
  "subjects_handleDelete jid confirmed err =
     (if confirmed then
        SubjectsDelete jid #
        (case err of
           Some msg \<Rightarrow> [Toast ''Error'' msg]
         | None \<Rightarrow> [Toast ''Success'' ''Subject deleted successfully'', FetchSubjects])
      else [])"

subsection \<open>Grades\<close>

text \<open>
  The state \<^verbatim>\<open>grades\<close> maps a student id to the two texts typed for it, listed here
  in the order of \<^verbatim>\<open>Object.entries\<close>; a text is \<open>None\<close> while its field was never
  edited. \<^verbatim>\<open>parseFloat\<close> is a parameter, \<open>None\<close> standing for \<^verbatim>\<open>NaN\<close>; both
  \<^verbatim>\<open>NaN\<close> and \<^verbatim>\<open>0\<close> are replaced by \<^verbatim>\<open>0\<close>.
\<close>

record grades_page =
  grd_selectedSubject :: uuid
  grd_grades :: "(uuid \<times> string option \<times> string option) list"

definition or_zero :: "rat option \<Rightarrow> rat" where
  "or_zero v = (case v of None \<Rightarrow> 0 | Some q \<Rightarrow> q)"

definition grades_records :: "(string option \<Rightarrow> rat option) \<Rightarrow> grades_page \<Rightarrow> grade_record list" where
  "grades_records parseFloat pg =
     map (\<lambda>(studentId, partial, exam).
            \<lparr>gr_student_id = studentId, gr_subject_id = grd_selectedSubject pg,
             gr_partial_score = or_zero (parseFloat partial),
             gr_exam_score = or_zero (parseFloat exam)\<rparr>)
         (grd_grades pg)"

definition grades_handleSave ::
  "(string option \<Rightarrow> rat option) \<Rightarrow> grades_page \<Rightarrow> string option \<Rightarrow> ui_effect list" where
  "grades_handleSave parseFloat pg err =
     (if grd_selectedSubject pg = [] then [Toast ''Error'' ''Please select a subject'']
      else
        GradesUpsert (grades_records parseFloat pg) #
        (case err of
           Some msg \<Rightarrow> [Toast ''Error'' msg]
         | None \<Rightarrow> [Toast ''Success'' ''Grades saved successfully'', FetchGrades]))"

subsection \<open>Attendance\<close>

text \<open>
  The listed students are the rows the page fetched from \<^verbatim>\<open>students\<close>; the state
  \<^verbatim>\<open>attendance\<close> maps the id of a student to the box ticked for it, and has no entry
  for a student whose box was never touched and who had no record. A date is the
  calendar day that \<^verbatim>\<open>format(selectedDate, "yyyy-MM-dd")\<close> writes.
\<close>

record attendance_page =
  att_students :: "student list"
  att_selectedSubject :: uuid
  att_selectedDate :: date
  att_attendance :: "uuid \<rightharpoonup> bool"

definition attendance_records :: "attendance_page \<Rightarrow> attendance_record list" where
  "attendance_records pg =
     map (\<lambda>st.
            \<lparr>ar_date = att_selectedDate pg, ar_student_id = st_id st,
             ar_subject_id = att_selectedSubject pg,
             ar_present = (case att_attendance pg (st_id st) of None \<Rightarrow> False | Some b \<Rightarrow> b)\<rparr>)
         (att_students pg)"

definition attendance_handleSave :: "attendance_page \<Rightarrow> string option \<Rightarrow> ui_effect list" where
  "attendance_handleSave pg err =
     (if att_selectedSubject pg = [] then [Toast ''Error'' ''Please select a subject'']
      else
        AttendanceUpsert (attendance_records pg) #
        (case err of
           Some msg \<Rightarrow> [Toast ''Error'' msg]
         | None \<Rightarrow> [Toast ''Success'' ''Attendance saved successfully'']))"

subsection \<open>Reloading after a mutation\<close>

fun mutated_table :: "ui_effect \<Rightarrow> table_name option" where
  "mutated_table (StudentsUpdate i f) = Some Students"
| "mutated_table (StudentsInsert f) = Some Students"
| "mutated_table (StudentsDelete i) = Some Students"
| "mutated_table (SubjectsUpdate i f) = Some Subjects"
| "mutated_table (SubjectsInsert f) = Some Subjects"
| "mutated_table (SubjectsDelete i) = Some Subjects"
| "mutated_table (AttendanceUpsert rs) = Some Attendance"
| "mutated_table (GradesUpsert rs) = Some Grades"
| "mutated_table e = None"

fun fetch_of :: "table_name \<Rightarrow> ui_effect" where
  "fetch_of Students = FetchStudents"
| "fetch_of Subjects = FetchSubjects"
| "fetch_of Attendance = FetchAttendance"
| "fetch_of Grades = FetchGrades"

text \<open>Every mutation in the list is followed, later in the list, by a fetch of its table.\<close>

fun reloads_after_mutation :: "ui_effect list \<Rightarrow> bool" where
  "reloads_after_mutation [] = True"
| "reloads_after_mutation (e # es) =
     ((case mutated_table e of None \<Rightarrow> True | Some t \<Rightarrow> fetch_of t \<in> set es)
      \<and> reloads_after_mutation es)"

section \<open>An example state\<close>

text \<open>
  One teacher \<open>u1\<close>, one account \<open>u2\<close> without a role, two students, one subject, one
  attendance record and no grade.
\<close>

definition school :: db where
  "school =
     \<lparr>auth_users =
        [\<lparr>au_id = ''u1'', au_email = Some ''ana@school.org'', au_raw_user_meta_data = Map.empty\<rparr>,
         \<lparr>au_id = ''u2'', au_email = Some ''bo@school.org'', au_raw_user_meta_data = Map.empty\<rparr>],
      profiles =
        [\<lparr>p_id = ''u1'', p_username = ''ana'', p_first_name = None, p_last_name = None,
          p_email = Some ''ana@school.org''\<rparr>,
         \<lparr>p_id = ''u2'', p_username = ''bo'', p_first_name = None, p_last_name = None,
          p_email = Some ''bo@school.org''\<rparr>],
      user_roles = [\<lparr>ur_id = ''r1'', ur_user_id = ''u1'', ur_role = Teacher\<rparr>],
      students =
        [\<lparr>st_id = ''s1'', st_first_name = ''Eva'', st_last_name = ''Diaz'',
          st_id_number = ''0001'', st_email = ''eva@school.org'', st_course = ''1A''\<rparr>,
         \<lparr>st_id = ''s2'', st_first_name = ''Leo'', st_last_name = ''Paz'',
          st_id_number = ''0002'', st_email = ''leo@school.org'', st_course = ''1A''\<rparr>],
      subjects = [\<lparr>su_id = ''j1'', su_name = ''Algebra'', su_instructor = ''Ana''\<rparr>],
      attendance =
        [\<lparr>at_id = ''a1'', at_date = 7, at_present = True, at_student_id = ''s1'',
          at_subject_id = ''j1''\<rparr>],
      grades = []\<rparr>"

definition graded :: db where
  "graded = school\<lparr>grades :=
     [\<lparr>g_id = ''g1'', g_partial_score = Some 8000, g_exam_score = Some 9000,
       g_average = Some 8500, g_student_id = ''s1'', g_subject_id = ''j1''\<rparr>]\<rparr>"

text \<open>A new account without metadata, and the attendance page with one box ticked.\<close>

definition newcomer :: auth_user where
  "newcomer = \<lparr>au_id = ''u3'', au_email = Some ''cy@school.org'',
               au_raw_user_meta_data = Map.empty\<rparr>"

definition roll_call :: attendance_page where
  "roll_call = \<lparr>att_students = students school, att_selectedSubject = ''j1'',
                att_selectedDate = 8, att_attendance = [''s1'' \<mapsto> True]\<rparr>"

section \<open>Properties of states and of supplied values\<close>

text \<open>
  The average of a grade row is the rounded mean of its two scores, and NULL when one
  of them is NULL.
\<close>

definition average_generated :: "grade \<Rightarrow> bool" where
  "average_generated g =
     (g_average g =
        (case (g_partial_score g, g_exam_score g) of
           (Some a, Some b) \<Rightarrow> Some (numeric_round2 ((dec_value a + dec_value b) / 2))
         | _ \<Rightarrow> None))"

text \<open>
  A supplied score that the column stores as a value below 0 or above 100; a patch that
  sets such a score.
\<close>

definition outside_range :: "rat option \<Rightarrow> bool" where
  "outside_range v =
     (case v of None \<Rightarrow> False | Some q \<Rightarrow> numeric_round2 q < 0 \<or> 10000 < numeric_round2 q)"

definition patch_outside_range :: "grade_patch \<Rightarrow> bool" where
  "patch_outside_range pt =
     ((case gp_partial_score pt of None \<Rightarrow> False | Some v \<Rightarrow> outside_range v)
      \<or> (case gp_exam_score pt of None \<Rightarrow> False | Some v \<Rightarrow> outside_range v))"

text \<open>
  Referential integrity: every attendance and grade row references a student and a
  subject that exist.
\<close>

definition references_ok :: "db \<Rightarrow> bool" where
  "references_ok d =
     (list_all (\<lambda>a. list_ex (\<lambda>t. st_id t = at_student_id a) (students d)
                  \<and> list_ex (\<lambda>j. su_id j = at_subject_id a) (subjects d)) (attendance d)
      \<and> list_all (\<lambda>g. list_ex (\<lambda>t. st_id t = g_student_id g) (students d)
                  \<and> list_ex (\<lambda>j. su_id j = g_subject_id g) (subjects d)) (grades d))"

text \<open>
  What a statement that is applied writes. A supplied text fits a column when it is not
  longer than the column; \<open>set_to\<close> is the new value of a column that a patch may set,
  \<open>set_score\<close> the same for a score, stored rounded; the \<open>patched\<close> rows are the rows
  an update leaves, with the average of a grade computed from its new scores.
\<close>

definition fits :: "nat \<Rightarrow> string option \<Rightarrow> bool" where
  "fits n v = (case v of None \<Rightarrow> True | Some s \<Rightarrow> length s \<le> n)"

definition fits_opt :: "nat \<Rightarrow> string option option \<Rightarrow> bool" where
  "fits_opt n v = (case v of Some (Some s) \<Rightarrow> length s \<le> n | _ \<Rightarrow> True)"

definition set_to :: "'a option \<Rightarrow> 'a \<Rightarrow> 'a" where
  "set_to v old = (case v of None \<Rightarrow> old | Some x \<Rightarrow> x)"

definition rounded_mean :: "int option \<Rightarrow> int option \<Rightarrow> int option" where
  "rounded_mean p x =
     (case (p, x) of
        (Some a, Some b) \<Rightarrow> Some (numeric_round2 ((dec_value a + dec_value b) / 2))
      | _ \<Rightarrow> None)"

definition set_score :: "rat option option \<Rightarrow> int option \<Rightarrow> int option" where
  "set_score v old = (case v of None \<Rightarrow> old | Some q \<Rightarrow> map_option numeric_round2 q)"

definition score_in_range :: "int option \<Rightarrow> bool" where
  "score_in_range p = (case p of None \<Rightarrow> True | Some a \<Rightarrow> 0 \<le> a \<and> a \<le> 10000)"

definition patched_student :: "student_patch \<Rightarrow> student \<Rightarrow> student" where
  "patched_student pt t =
     t\<lparr>st_first_name := set_to (sp_first_name pt) (st_first_name t),
       st_last_name := set_to (sp_last_name pt) (st_last_name t),
       st_id_number := set_to (sp_id_number pt) (st_id_number t),
       st_email := set_to (sp_email pt) (st_email t),
       st_course := set_to (sp_course pt) (st_course t)\<rparr>"

definition patched_subject :: "subject_patch \<Rightarrow> subject \<Rightarrow> subject" where
  "patched_subject pt j =
     j\<lparr>su_name := set_to (jp_name pt) (su_name j),
       su_instructor := set_to (jp_instructor pt) (su_instructor j)\<rparr>"

definition patched_attendance :: "attendance_patch \<Rightarrow> attendance_row \<Rightarrow> attendance_row" where
  "patched_attendance pt a =
     a\<lparr>at_date := set_to (ap_date pt) (at_date a),
       at_present := set_to (ap_present pt) (at_present a)\<rparr>"

definition patched_grade :: "grade_patch \<Rightarrow> grade \<Rightarrow> grade" where
  "patched_grade pt g =
     g\<lparr>g_partial_score := set_score (gp_partial_score pt) (g_partial_score g),
       g_exam_score := set_score (gp_exam_score pt) (g_exam_score g),
       g_average := rounded_mean (set_score (gp_partial_score pt) (g_partial_score g))
                      (set_score (gp_exam_score pt) (g_exam_score g))\<rparr>"

definition patched_profile :: "profile_patch \<Rightarrow> profile \<Rightarrow> profile" where
  "patched_profile pt p =
     p\<lparr>p_username := set_to (pp_username pt) (p_username p),
       p_first_name := set_to (pp_first_name pt) (p_first_name p),
       p_last_name := set_to (pp_last_name pt) (p_last_name p),
       p_email := set_to (pp_email pt) (p_email p)\<rparr>"

section \<open>Basic facts\<close>

lemma and_then_Inl [simp]: "and_then (Inl e) f = Inl e"
  by (simp add: and_then_def)

lemma and_then_Inr [simp]: "and_then (Inr x) f = f x"
  by (simp add: and_then_def)

lemma and_then_eq_Inr: "and_then r f = Inr y \<longleftrightarrow> (\<exists>x. r = Inr x \<and> f x = Inr y)"
  by (cases r) simp_all

lemma collect_same: "(\<And>x. x \<in> set xs \<Longrightarrow> f x = Inr x) \<Longrightarrow> collect f xs = Inr xs"
  by (induction xs) simp_all

lemma collect_Inr_set:
  "collect f xs = Inr ys \<Longrightarrow> y \<in> set ys \<Longrightarrow> \<exists>x\<in>set xs. f x = Inr y"
proof (induction xs arbitrary: ys)
  case Nil
  then show ?case by simp
next
  case (Cons x xs)
  from Cons.prems(1) obtain z zs where z: "f x = Inr z" and zs: "collect f xs = Inr zs"
    and ys: "ys = z # zs"
    by (auto simp: and_then_eq_Inr)
  with Cons show ?case by auto
qed

lemma collect_Inl:
  "x \<in> set xs \<Longrightarrow> f x = Inl e \<Longrightarrow> \<exists>e'. collect f xs = Inl e'"
proof (induction xs)
  case Nil
  then show ?case by simp
next
  case (Cons a xs)
  show ?case
  proof (cases "f a")
    case (Inl e0)
    then show ?thesis by simp
  next
    case (Inr b)
    show ?thesis
    proof (cases "x = a")
      case True
      with Cons.prems Inr show ?thesis by simp
    next
      case False
      with Cons obtain e' where "collect f xs = Inl e'" by auto
      with Inr show ?thesis by simp
    qed
  qed
qed

lemma sql_update_denied: "sql_update (\<lambda>r. False) wher upd rows = Inr rows"
  by (simp add: sql_update_def collect_same)

lemma sql_delete_denied: "sql_delete (\<lambda>r. False) wher rows = rows"
  by (simp add: sql_delete_def)

lemma floor_numeral_quotient:
  "\<lfloor>numeral a / numeral b :: rat\<rfloor> = numeral a div numeral b"
  by (metis floor_divide_of_int_eq of_int_numeral)

lemma denied_write_keeps_state:
  assumes "written_table st = Some (t, c)" and "\<not> may_write t d c"
  shows "state_after d (exec st d) = d"
  using assms
  by (cases st)
     (auto simp: state_after_def insert_into_students_def update_students_def
        delete_from_students_def insert_into_subjects_def update_subjects_def
        delete_from_subjects_def insert_into_attendance_def update_attendance_def
        delete_from_attendance_def insert_into_grades_def update_grades_def
        delete_from_grades_def sql_update_denied sql_delete_denied and_then_def
        split: sum.splits)

lemma has_role_iff:
  "has_role d u r \<longleftrightarrow> (\<exists>x\<in>set (user_roles d). ur_user_id x = u \<and> ur_role x = r)"
  by (simp add: has_role_def list_ex_iff)

lemma decimal_5_2_opt_Inr:
  "decimal_5_2_opt v = Inr r \<Longrightarrow> r = map_option numeric_round2 v"
  by (auto simp: decimal_5_2_opt_def decimal_5_2_def Let_def split: option.splits if_splits)

lemma grades_average_Inr:
  "grades_average p x = Inr avg \<Longrightarrow>
   avg = (case (p, x) of
            (Some a, Some b) \<Rightarrow> Some (numeric_round2 ((dec_value a + dec_value b) / 2))
          | _ \<Rightarrow> None)"
  by (auto simp: grades_average_def dest: decimal_5_2_opt_Inr split: option.splits)

lemma grades_update_row_generated:
  "grades_update_row pt g = Inr g' \<Longrightarrow> average_generated g'"
  by (auto simp: grades_update_row_def and_then_eq_Inr average_generated_def
      dest!: grades_average_Inr split: if_splits option.splits)

lemma insert_into_grades_rows:
  assumes "insert_into_grades c i inp d = Inr d'"
  shows "\<exists>g. grades d' = grades d @ [g] \<and> average_generated g"
  using assms
  by (auto simp: insert_into_grades_def and_then_eq_Inr average_generated_def
      dest!: grades_average_Inr split: if_splits option.splits)

lemma update_grades_rows:
  assumes "update_grades c w pt d = Inr d'" and "g \<in> set (grades d')"
  shows "g \<in> set (grades d) \<or> average_generated g"
proof -
  from assms(1) obtain gs where gs: "sql_update (\<lambda>g. may_write Grades d c) w (grades_update_row pt) (grades d) = Inr gs"
    and d': "d' = d\<lparr>grades := gs\<rparr>"
    by (auto simp: update_grades_def and_then_eq_Inr split: if_splits)
  from assms(2) d' have "g \<in> set gs" by simp
  with gs obtain g0 where "g0 \<in> set (grades d)"
    and "(if may_write Grades d c \<and> w g0 then grades_update_row pt g0 else Inr g0) = Inr g"
    unfolding sql_update_def by (blast dest: collect_Inr_set)
  then show ?thesis
    by (auto split: if_splits dest: grades_update_row_generated)
qed

lemma other_statements_grades:
  assumes "exec st d = Inr d'" and "g \<in> set (grades d')"
    and "\<And>c i inp. st \<noteq> InsertGrade c i inp" and "\<And>c w pt. st \<noteq> UpdateGrades c w pt"
  shows "g \<in> set (grades d)"
  using assms
  by (cases st)
     (auto simp: insert_into_students_def update_students_def
        delete_from_students_def insert_into_subjects_def update_subjects_def
        delete_from_subjects_def insert_into_attendance_def update_attendance_def
        delete_from_attendance_def delete_from_grades_def update_profiles_def
        insert_into_auth_users_def handle_new_user_def sql_delete_def Let_def
        and_then_eq_Inr
        split: if_splits option.splits)

lemma numeric_round2_of_int: "numeric_round2 (of_int k / 100) = k"
  by (auto simp: numeric_round2_def zero_le_divide_iff) linarith+

lemma numeric_round2_even_mean:
  assumes "even (a + b)"
  shows "dec_value (numeric_round2 ((dec_value a + dec_value b) / 2)) = (dec_value a + dec_value b) / 2"
proof -
  from assms obtain k where k: "a + b = 2 * k" unfolding dvd_def by blast
  have "(dec_value a + dec_value b) / 2 = of_int (a + b) / 200"
    by (simp add: dec_value_def add_divide_distrib)
  also have "\<dots> = of_int k / 100" by (simp add: k)
  finally have m: "(dec_value a + dec_value b) / 2 = of_int k / 100" .
  show ?thesis
    unfolding m numeric_round2_of_int by (simp add: dec_value_def)
qed

lemmas grade_eval =
  insert_into_grades_def update_grades_def grades_update_row_def sql_update_def
  decimal_5_2_opt_def decimal_5_2_def numeric_round2_def dec_value_def grades_average_def
  grades_partial_score_check_def grades_exam_score_check_def check_passes_def sql_and_def
  sql_ge_def sql_le_def may_write_def has_role_def floor_numeral_quotient

lemma outside_range_iff:
  "outside_range (Some q) \<longleftrightarrow> q \<le> - (1 / 200) \<or> 100 + 1 / 200 \<le> q"
proof (cases "0 \<le> q")
  case True
  have "10000 < \<lfloor>q * 100 + 1 / 2\<rfloor> \<longleftrightarrow> 10001 \<le> \<lfloor>q * 100 + 1 / 2\<rfloor>" by linarith
  also have "\<dots> \<longleftrightarrow> 10001 \<le> q * 100 + 1 / 2" by (simp add: le_floor_iff)
  finally have a: "10000 < \<lfloor>q * 100 + 1 / 2\<rfloor> \<longleftrightarrow> 10001 \<le> q * 100 + 1 / 2" .
  have b: "\<not> \<lfloor>q * 100 + 1 / 2\<rfloor> < 0" using True by (simp add: not_less)
  from True a b show ?thesis by (auto simp: outside_range_def numeric_round2_def)
next
  case False
  have "- \<lfloor>- q * 100 + 1 / 2\<rfloor> < 0 \<longleftrightarrow> 1 \<le> \<lfloor>- q * 100 + 1 / 2\<rfloor>" by linarith
  also have "\<dots> \<longleftrightarrow> 1 \<le> - q * 100 + 1 / 2" by (simp add: le_floor_iff)
  finally have a: "- \<lfloor>- q * 100 + 1 / 2\<rfloor> < 0 \<longleftrightarrow> 1 \<le> - q * 100 + 1 / 2" .
  have b: "\<not> 10000 < - \<lfloor>- q * 100 + 1 / 2\<rfloor>"
  proof -
    from False have "0 \<le> - q * 100 + 1 / 2" by simp
    then have "0 \<le> \<lfloor>- q * 100 + 1 / 2\<rfloor>" by (simp only: zero_le_floor)
    then show ?thesis by linarith
  qed
  from False a b show ?thesis by (auto simp: outside_range_def numeric_round2_def)
qed

lemma check_iff:
  "grades_partial_score_check p \<longleftrightarrow> (\<forall>a. p = Some a \<longrightarrow> 0 \<le> a \<and> a \<le> 10000)"
  "grades_exam_score_check p \<longleftrightarrow> (\<forall>a. p = Some a \<longrightarrow> 0 \<le> a \<and> a \<le> 10000)"
  by (cases p; auto simp: grades_partial_score_check_def grades_exam_score_check_def
        check_passes_def sql_and_def sql_ge_def sql_le_def)+

lemma outside_range_coerced:
  "outside_range v \<Longrightarrow> decimal_5_2_opt v = Inr p \<Longrightarrow> \<not> grades_partial_score_check p \<and> \<not> grades_exam_score_check p"
  by (cases v) (auto simp: outside_range_def check_iff dest!: decimal_5_2_opt_Inr)

lemma insert_outside_range:
  assumes "outside_range (gi_partial_score inp) \<or> outside_range (gi_exam_score inp)"
  shows "\<exists>e. insert_into_grades c i inp d = Inl e"
proof (cases "insert_into_grades c i inp d")
  case (Inl e)
  then show ?thesis by blast
next
  case (Inr d')
  then obtain p x where "decimal_5_2_opt (gi_partial_score inp) = Inr p"
    "decimal_5_2_opt (gi_exam_score inp) = Inr x"
    "grades_partial_score_check p" "grades_exam_score_check x"
    by (auto simp: insert_into_grades_def and_then_eq_Inr split: if_splits option.splits)
  with assms show ?thesis by (auto dest: outside_range_coerced)
qed

lemma update_row_outside_range:
  assumes "patch_outside_range pt"
  shows "\<exists>e. grades_update_row pt g = Inl e"
proof (cases "grades_update_row pt g")
  case (Inl e)
  then show ?thesis by blast
next
  case (Inr g')
  then obtain p x where
    "(case gp_partial_score pt of None \<Rightarrow> Inr (g_partial_score g) | Some v \<Rightarrow> decimal_5_2_opt v) = Inr p"
    "(case gp_exam_score pt of None \<Rightarrow> Inr (g_exam_score g) | Some v \<Rightarrow> decimal_5_2_opt v) = Inr x"
    "grades_partial_score_check p" "grades_exam_score_check x"
    by (auto simp: grades_update_row_def and_then_eq_Inr split: if_splits)
  with assms show ?thesis
    by (auto simp: patch_outside_range_def split: option.splits dest: outside_range_coerced)
qed

lemma collect_none_changed:
  "collect f xs = Inr ys \<Longrightarrow> (\<And>x. x \<in> set xs \<Longrightarrow> f x = Inr x \<or> (\<exists>e. f x = Inl e)) \<Longrightarrow> ys = xs"
proof (induction xs arbitrary: ys)
  case Nil
  then show ?case by simp
next
  case (Cons a xs)
  from Cons.prems(1) obtain z zs where z: "f a = Inr z" and zs: "collect f xs = Inr zs"
    and ys: "ys = z # zs"
    by (auto simp: and_then_eq_Inr)
  from Cons.prems(2)[of a] z have "z = a" by auto
  moreover from Cons.IH[OF zs] Cons.prems(2) have "zs = xs" by auto
  ultimately show ?case using ys by simp
qed

lemma update_outside_range:
  assumes "patch_outside_range pt"
  shows "state_after d (update_grades c w pt d) = d"
    and "may_write Grades d c \<Longrightarrow> \<exists>g\<in>set (grades d). w g \<Longrightarrow> \<exists>e. update_grades c w pt d = Inl e"
proof -
  let ?f = "\<lambda>r. if may_write Grades d c \<and> w r then grades_update_row pt r else Inr r"
  have each: "?f x = Inr x \<or> (\<exists>e. ?f x = Inl e)" for x
    using update_row_outside_range[OF assms, of x] by auto
  show "state_after d (update_grades c w pt d) = d"
  proof (cases "update_grades c w pt d")
    case (Inl e)
    then show ?thesis by (simp add: state_after_def)
  next
    case (Inr d')
    then obtain gs where gs: "collect ?f (grades d) = Inr gs" and d': "d' = d\<lparr>grades := gs\<rparr>"
      by (auto simp: update_grades_def sql_update_def and_then_eq_Inr split: if_splits)
    from collect_none_changed[OF gs] each have "gs = grades d" by blast
    with d' Inr show ?thesis by (simp add: state_after_def)
  qed
  show "\<exists>e. update_grades c w pt d = Inl e"
    if mw: "may_write Grades d c" and ex: "\<exists>g\<in>set (grades d). w g"
  proof -
    from ex obtain g where g: "g \<in> set (grades d)" "w g" by blast
    with mw update_row_outside_range[OF assms, of g] obtain e where "?f g = Inl e" by auto
    with g(1) have "\<exists>e'. collect ?f (grades d) = Inl e'" by (rule collect_Inl)
    then obtain e' where "collect ?f (grades d) = Inl e'" by blast
    then show ?thesis by (auto simp: update_grades_def sql_update_def)
  qed
qed

lemma duplicate_grade_rejected:
  assumes "\<exists>g\<in>set (grades d). g_student_id g = s \<and> g_subject_id g = j"
    and "gi_student_id inp = Some s" and "gi_subject_id inp = Some j"
  shows "\<exists>e. insert_into_grades c i inp d = Inl e"
proof (cases "insert_into_grades c i inp d")
  case (Inl e)
  then show ?thesis by blast
next
  case (Inr d')
  with assms show ?thesis
    by (auto simp: insert_into_grades_def and_then_eq_Inr list_ex_iff split: if_splits)
qed

lemma duplicate_attendance_rejected:
  assumes "\<exists>a\<in>set (attendance d). at_date a = dt \<and> at_student_id a = s \<and> at_subject_id a = j"
    and "ai_date inp = Some dt" and "ai_student_id inp = Some s" and "ai_subject_id inp = Some j"
  shows "\<exists>e. insert_into_attendance c i inp d = Inl e"
  using assms by (auto simp: insert_into_attendance_def list_ex_iff)

lemma other_date_accepted:
  assumes "references_ok d" and "may_write Attendance d c"
    and "\<exists>a\<in>set (attendance d). at_date a \<noteq> dt \<and> at_student_id a = s \<and> at_subject_id a = j"
    and "\<not> (\<exists>a\<in>set (attendance d).
            at_id a = i \<or> (at_date a = dt \<and> at_student_id a = s \<and> at_subject_id a = j))"
  shows "insert_into_attendance c i
           \<lparr>ai_date = Some dt, ai_present = pr, ai_student_id = Some s, ai_subject_id = Some j\<rparr> d
         = Inr (d\<lparr>attendance := attendance d @
             [\<lparr>at_id = i, at_date = dt,
               at_present = (case pr of None \<Rightarrow> False | Some b \<Rightarrow> b),
               at_student_id = s, at_subject_id = j\<rparr>]\<rparr>)"
proof -
  from assms(3) obtain a where a: "a \<in> set (attendance d)" "at_student_id a = s" "at_subject_id a = j"
    by blast
  with assms(1) have "list_ex (\<lambda>t. st_id t = s) (students d)" "list_ex (\<lambda>t. su_id t = j) (subjects d)"
    by (auto simp: references_ok_def list_all_iff)
  with assms(2,4) show ?thesis
    by (auto simp: insert_into_attendance_def list_ex_iff)
qed

lemmas store_eval =
  school_def graded_def may_write_def has_role_def insert_into_attendance_def
  references_ok_def state_after_def

lemma gone_ids:
  assumes "\<exists>t\<in>set ts. f t = k"
  shows "set (map f (filter (\<lambda>t. f t = k) ts)) = {k}"
  using assms by auto

lemma update_profiles_others:
  assumes "collect (\<lambda>r. if profiles_update_policy (Authenticated u) r \<and> w r
                          then update_profiles_row (Authenticated u) pt r else Inr r) ps = Inr ps'"
  shows "map p_id ps' = map p_id ps
       \<and> filter (\<lambda>p. p_id p \<noteq> u) ps' = filter (\<lambda>p. p_id p \<noteq> u) ps"
  using assms
proof (induction ps arbitrary: ps')
  case Nil
  then show ?case by simp
next
  case (Cons a ps)
  from Cons.prems obtain z zs where
    z: "(if profiles_update_policy (Authenticated u) a \<and> w a
         then update_profiles_row (Authenticated u) pt a else Inr a) = Inr z"
    and zs: "collect (\<lambda>r. if profiles_update_policy (Authenticated u) r \<and> w r
                          then update_profiles_row (Authenticated u) pt r else Inr r) ps = Inr zs"
    and ps': "ps' = z # zs"
    by (auto simp: and_then_eq_Inr)
  from z have "p_id z = p_id a \<and> (p_id a \<noteq> u \<longrightarrow> z = a)"
    by (auto simp: update_profiles_row_def and_then_eq_Inr profiles_update_policy_def Let_def
        split: if_splits)
  with Cons.IH[OF zs] ps' show ?case by auto
qed

lemma varchar_Inr:
  "varchar n s = Inr t \<Longrightarrow> t = take n s \<and> list_all (\<lambda>c. c = CHR '' '') (drop n s)"
  by (auto simp: varchar_def split: if_splits)

lemma varchar_opt_Some:
  "varchar_opt n v = Inr (Some t) \<Longrightarrow> \<exists>s. v = Some s \<and> varchar n s = Inr t"
  by (auto simp: varchar_opt_def split: option.splits sum.splits)

lemma handle_new_user_Inr:
  assumes "handle_new_user new d = Inr d'"
  shows "\<exists>n fn ln em. new_username new = Some n
          \<and> varchar 50 n = Inr (take 50 n)
          \<and> \<not> (\<exists>q\<in>set (profiles d). p_id q = au_id new)
          \<and> d' = d\<lparr>profiles := profiles d @
                [\<lparr>p_id = au_id new, p_username = take 50 n, p_first_name = fn,
                  p_last_name = ln, p_email = em\<rparr>]\<rparr>"
proof -
  from assms obtain un fn ln em where
    un: "varchar_opt 50 (new_username new) = Inr (Some un)"
    and nodup: "\<not> list_ex (\<lambda>p. p_id p = au_id new \<or> p_username p = un) (profiles d)"
    and d': "d' = d\<lparr>profiles := profiles d @
                [\<lparr>p_id = au_id new, p_username = un, p_first_name = fn,
                  p_last_name = ln, p_email = em\<rparr>]\<rparr>"
    by (auto simp: handle_new_user_def and_then_eq_Inr split: option.splits if_splits)
  from un obtain n where n: "new_username new = Some n" "varchar 50 n = Inr un"
    by (blast dest: varchar_opt_Some)
  then have "un = take 50 n" by (simp add: varchar_Inr)
  with n nodup d' show ?thesis by (auto simp: list_ex_iff)
qed

lemmas signup_eval =
  insert_into_auth_users_def handle_new_user_def new_username_def split_part_1_def
  varchar_opt_def varchar_def

lemma students_page_reloads:
  "reloads_after_mutation (students_handleSubmit editing form None)"
  "reloads_after_mutation (students_handleDelete sid confirmed None)"
  by (simp_all add: students_handleSubmit_def students_handleDelete_def split: option.splits)

lemma subjects_page_reloads:
  "reloads_after_mutation (subjects_handleSubmit editing form None)"
  "reloads_after_mutation (subjects_handleDelete jid confirmed None)"
  by (simp_all add: subjects_handleSubmit_def subjects_handleDelete_def split: option.splits)

lemma grades_page_reloads:
  "reloads_after_mutation (grades_handleSave parseFloat pg None)"
  by (simp add: grades_handleSave_def)

lemma failed_mutation_shows_error:
  "students_handleSubmit editing form (Some msg) \<noteq> [] \<and> last (students_handleSubmit editing form (Some msg)) = Toast ''Error'' msg"
  by (simp add: students_handleSubmit_def split: option.splits)

lemma attendance_records_once:
  assumes "distinct (map st_id ts)" and "t \<in> set ts"
  shows "length (filter (\<lambda>r. ar_student_id r = st_id t)
           (map (\<lambda>st. \<lparr>ar_date = dt, ar_student_id = st_id st, ar_subject_id = j,
                        ar_present = f st\<rparr>) ts)) = 1"
  using assms
proof (induction ts)
  case Nil
  then show ?case by simp
next
  case (Cons a ts)
  show ?case
  proof (cases "st_id a = st_id t")
    case True
    from Cons.prems(1) have "st_id a \<notin> st_id ` set ts" by simp
    with True have "\<forall>x\<in>set ts. st_id x \<noteq> st_id t" by (metis imageI)
    then have "filter (\<lambda>r. ar_student_id r = st_id t)
           (map (\<lambda>st. \<lparr>ar_date = dt, ar_student_id = st_id st, ar_subject_id = j,
                        ar_present = f st\<rparr>) ts) = []"
      by (auto simp: filter_empty_conv)
    with True show ?thesis by simp
  next
    case False
    with Cons show ?thesis by auto
  qed
qed

lemma collect_map_eq:
  assumes "collect f xs = Inr ys" and "\<And>x y. x \<in> set xs \<Longrightarrow> f x = Inr y \<Longrightarrow> k y = k x"
  shows "map k ys = map k xs"
  using assms
proof (induction xs arbitrary: ys)
  case Nil
  then show ?case by simp
next
  case (Cons a xs)
  from Cons.prems(1) obtain z zs where z: "f a = Inr z" and zs: "collect f xs = Inr zs"
    and ys: "ys = z # zs"
    by (auto simp: and_then_eq_Inr)
  from Cons.IH[OF zs] Cons.prems(2) have "map k zs = map k xs" by auto
  moreover from Cons.prems(2)[of a z] z have "k z = k a" by simp
  ultimately show ?case using ys by simp
qed

lemma references_ok_iff:
  "references_ok d \<longleftrightarrow>
     (\<forall>a\<in>set (attendance d). at_student_id a \<in> st_id ` set (students d)
                              \<and> at_subject_id a \<in> su_id ` set (subjects d))
   \<and> (\<forall>g\<in>set (grades d). g_student_id g \<in> st_id ` set (students d)
                          \<and> g_subject_id g \<in> su_id ` set (subjects d))"
  unfolding references_ok_def list_all_iff list_ex_iff image_iff by (safe; metis)

lemma update_students_ids:
  assumes "update_students c w pt d = Inr d'"
  shows "map st_id (students d') = map st_id (students d) \<and> subjects d' = subjects d
       \<and> attendance d' = attendance d \<and> grades d' = grades d"
proof -
  from assms obtain ts where ts: "sql_update (\<lambda>t. may_write Students d c) w (update_students_row pt) (students d) = Inr ts"
    and d': "d' = d\<lparr>students := ts\<rparr>"
    by (auto simp: update_students_def and_then_eq_Inr split: if_splits)
  have "map st_id ts = map st_id (students d)"
    using ts unfolding sql_update_def
    by (rule collect_map_eq)
       (auto simp: update_students_row_def and_then_eq_Inr split: if_splits)
  with d' show ?thesis by simp
qed

lemma update_subjects_ids:
  assumes "update_subjects c w pt d = Inr d'"
  shows "map su_id (subjects d') = map su_id (subjects d) \<and> students d' = students d
       \<and> attendance d' = attendance d \<and> grades d' = grades d"
proof -
  from assms obtain ts where ts: "sql_update (\<lambda>t. may_write Subjects d c) w (update_subjects_row pt) (subjects d) = Inr ts"
    and d': "d' = d\<lparr>subjects := ts\<rparr>"
    by (auto simp: update_subjects_def and_then_eq_Inr split: if_splits)
  have "map su_id ts = map su_id (subjects d)"
    using ts unfolding sql_update_def
    by (rule collect_map_eq)
       (auto simp: update_subjects_row_def and_then_eq_Inr split: if_splits)
  with d' show ?thesis by simp
qed

lemma update_attendance_refs:
  assumes "update_attendance c w pt d = Inr d'"
  shows "map (\<lambda>a. (at_student_id a, at_subject_id a)) (attendance d')
           = map (\<lambda>a. (at_student_id a, at_subject_id a)) (attendance d)
       \<and> students d' = students d \<and> subjects d' = subjects d \<and> grades d' = grades d"
proof -
  from assms obtain ts where ts: "sql_update (\<lambda>t. may_write Attendance d c) w (update_attendance_row pt) (attendance d) = Inr ts"
    and d': "d' = d\<lparr>attendance := ts\<rparr>"
    by (auto simp: update_attendance_def and_then_eq_Inr split: if_splits)
  have "map (\<lambda>a. (at_student_id a, at_subject_id a)) ts = map (\<lambda>a. (at_student_id a, at_subject_id a)) (attendance d)"
    using ts unfolding sql_update_def
    by (rule collect_map_eq)
       (auto simp: update_attendance_row_def split: if_splits)
  with d' show ?thesis by simp
qed

lemma update_grades_refs:
  assumes "update_grades c w pt d = Inr d'"
  shows "map (\<lambda>a. (g_student_id a, g_subject_id a)) (grades d')
           = map (\<lambda>a. (g_student_id a, g_subject_id a)) (grades d)
       \<and> students d' = students d \<and> subjects d' = subjects d \<and> attendance d' = attendance d"
proof -
  from assms obtain ts where ts: "sql_update (\<lambda>t. may_write Grades d c) w (grades_update_row pt) (grades d) = Inr ts"
    and d': "d' = d\<lparr>grades := ts\<rparr>"
    by (auto simp: update_grades_def and_then_eq_Inr split: if_splits)
  have "map (\<lambda>a. (g_student_id a, g_subject_id a)) ts = map (\<lambda>a. (g_student_id a, g_subject_id a)) (grades d)"
    using ts unfolding sql_update_def
    by (rule collect_map_eq)
       (auto simp: grades_update_row_def and_then_eq_Inr split: if_splits)
  with d' show ?thesis by simp
qed

lemma set_map_pair:
  "map (\<lambda>a. (f a, g a)) xs = map (\<lambda>a. (f a, g a)) ys \<Longrightarrow>
   (\<forall>a\<in>set xs. f a \<in> A \<and> g a \<in> B) = (\<forall>a\<in>set ys. f a \<in> A \<and> g a \<in> B)"
proof -
  assume h: "map (\<lambda>a. (f a, g a)) xs = map (\<lambda>a. (f a, g a)) ys"
  have "(\<forall>a\<in>set xs. f a \<in> A \<and> g a \<in> B) = (\<forall>p\<in>set (map (\<lambda>a. (f a, g a)) xs). fst p \<in> A \<and> snd p \<in> B)"
    by auto
  also have "\<dots> = (\<forall>p\<in>set (map (\<lambda>a. (f a, g a)) ys). fst p \<in> A \<and> snd p \<in> B)"
    by (simp only: h)
  also have "\<dots> = (\<forall>a\<in>set ys. f a \<in> A \<and> g a \<in> B)" by auto
  finally show ?thesis .
qed

lemma references_preserved:
  assumes "references_ok d" and "exec st d = Inr d'"
  shows "references_ok d'"
proof (cases st)
  case (UpdateStudents c w pt)
  with assms(2) have "map st_id (students d') = map st_id (students d) \<and> subjects d' = subjects d
       \<and> attendance d' = attendance d \<and> grades d' = grades d"
    by (auto dest: update_students_ids)
  then have "st_id ` set (students d') = st_id ` set (students d)" "subjects d' = subjects d"
    "attendance d' = attendance d" "grades d' = grades d"
    by (metis set_map)+
  with assms(1) show ?thesis by (simp add: references_ok_iff)
next
  case (UpdateSubjects c w pt)
  with assms(2) have "map su_id (subjects d') = map su_id (subjects d) \<and> students d' = students d
       \<and> attendance d' = attendance d \<and> grades d' = grades d"
    by (auto dest: update_subjects_ids)
  then have "su_id ` set (subjects d') = su_id ` set (subjects d)" "students d' = students d"
    "attendance d' = attendance d" "grades d' = grades d"
    by (metis set_map)+
  with assms(1) show ?thesis by (simp add: references_ok_iff)
next
  case (UpdateAttendance c w pt)
  with assms(2) have *: "map (\<lambda>a. (at_student_id a, at_subject_id a)) (attendance d')
           = map (\<lambda>a. (at_student_id a, at_subject_id a)) (attendance d)
       \<and> students d' = students d \<and> subjects d' = subjects d \<and> grades d' = grades d"
    by (auto dest: update_attendance_refs)
  with assms(1) set_map_pair[of at_student_id at_subject_id "attendance d'" "attendance d"]
  show ?thesis by (simp add: references_ok_iff)
next
  case (UpdateGrades c w pt)
  with assms(2) have *: "map (\<lambda>a. (g_student_id a, g_subject_id a)) (grades d')
           = map (\<lambda>a. (g_student_id a, g_subject_id a)) (grades d)
       \<and> students d' = students d \<and> subjects d' = subjects d \<and> attendance d' = attendance d"
    by (auto dest: update_grades_refs)
  with assms(1) set_map_pair[of g_student_id g_subject_id "grades d'" "grades d"]
  show ?thesis by (simp add: references_ok_iff)
next
  case (InsertStudent c i inp)
  with assms show ?thesis
    by (auto simp: references_ok_iff insert_into_students_def and_then_eq_Inr
        split: if_splits option.splits)
next
  case (InsertSubject c i inp)
  with assms show ?thesis
    by (auto simp: references_ok_iff insert_into_subjects_def and_then_eq_Inr
        split: if_splits option.splits)
next
  case (InsertAttendance c i inp)
  with assms show ?thesis
    by (auto simp: references_ok_iff insert_into_attendance_def list_ex_iff
        split: if_splits option.splits)
next
  case (InsertGrade c i inp)
  with assms show ?thesis
    by (auto simp: references_ok_iff insert_into_grades_def and_then_eq_Inr list_ex_iff
        split: if_splits option.splits)
next
  case (DeleteStudents c w)
  with assms show ?thesis
    by (auto simp: references_ok_iff delete_from_students_def sql_delete_def Let_def) blast+
next
  case (DeleteSubjects c w)
  with assms show ?thesis
    by (auto simp: references_ok_iff delete_from_subjects_def sql_delete_def Let_def) blast+
next
  case (DeleteAttendance c w)
  with assms show ?thesis
    by (auto simp: references_ok_iff delete_from_attendance_def sql_delete_def)
next
  case (DeleteGrades c w)
  with assms show ?thesis
    by (auto simp: references_ok_iff delete_from_grades_def sql_delete_def)
next
  case (UpdateProfiles c w pt)
  with assms show ?thesis
    by (auto simp: references_ok_iff update_profiles_def and_then_eq_Inr split: if_splits)
next
  case (InsertAuthUser new)
  with assms show ?thesis
    by (auto simp: references_ok_iff insert_into_auth_users_def handle_new_user_def
        and_then_eq_Inr split: if_splits option.splits)
qed

lemma attendance_page_never_reloads:
  "att_selectedSubject pg \<noteq> [] \<Longrightarrow> \<not> reloads_after_mutation (attendance_handleSave pg None)"
  by (simp add: attendance_handleSave_def)

lemma update_row_in_range:
  "grades_update_row pt g = Inr g' \<Longrightarrow>
   grades_partial_score_check (g_partial_score g') \<and> grades_exam_score_check (g_exam_score g')"
  by (auto simp: grades_update_row_def and_then_eq_Inr split: if_splits)

lemma stored_scores_in_range:
  assumes "\<forall>g\<in>set (grades d). grades_partial_score_check (g_partial_score g)
                              \<and> grades_exam_score_check (g_exam_score g)"
    and "exec st d = Inr d'"
    and "g \<in> set (grades d')"
  shows "grades_partial_score_check (g_partial_score g) \<and> grades_exam_score_check (g_exam_score g)"
proof (cases st)
  case (InsertGrade c i inp)
  with assms(2) obtain g0 where "grades d' = grades d @ [g0]"
    "grades_partial_score_check (g_partial_score g0) \<and> grades_exam_score_check (g_exam_score g0)"
    by (auto simp: insert_into_grades_def and_then_eq_Inr split: if_splits option.splits)
  with assms(1,3) show ?thesis by auto
next
  case (UpdateGrades c w pt)
  with assms(2) obtain gs where
    gs: "sql_update (\<lambda>g. may_write Grades d c) w (grades_update_row pt) (grades d) = Inr gs"
    and d': "d' = d\<lparr>grades := gs\<rparr>"
    by (auto simp: update_grades_def and_then_eq_Inr split: if_splits)
  from assms(3) d' have "g \<in> set gs" by simp
  with gs obtain g0 where "g0 \<in> set (grades d)"
    and "(if may_write Grades d c \<and> w g0 then grades_update_row pt g0 else Inr g0) = Inr g"
    unfolding sql_update_def by (blast dest: collect_Inr_set)
  with assms(1) show ?thesis
    by (auto split: if_splits dest: update_row_in_range)
qed (use assms other_statements_grades in blast)+

lemma collect_map: "(\<And>x. x \<in> set xs \<Longrightarrow> f x = Inr (g x)) \<Longrightarrow> collect f xs = Inr (map g xs)"
  by (induction xs) simp_all

lemma sql_update_applied:
  assumes "\<And>r. r \<in> set rows \<Longrightarrow> wher r \<Longrightarrow> upd r = Inr (new r)"
  shows "sql_update (\<lambda>r. True) wher upd rows = Inr (map (\<lambda>r. if wher r then new r else r) rows)"
  unfolding sql_update_def using assms by (intro collect_map) simp

lemma set_varchar_fits: "fits n v \<Longrightarrow> set_varchar n v old = Inr (set_to v old)"
  by (auto simp: fits_def set_varchar_def set_to_def varchar_def split: option.splits)

lemma set_varchar_opt_fits: "fits_opt n v \<Longrightarrow> set_varchar_opt n v old = Inr (set_to v old)"
  by (auto simp: fits_opt_def set_varchar_opt_def set_to_def varchar_opt_def varchar_def
      split: option.splits)

lemma varchar_opt_fits: "length s \<le> n \<Longrightarrow> varchar_opt n (Some s) = Inr (Some s)"
  by (simp add: varchar_opt_def varchar_def)

lemma numeric_round2_bounds:
  assumes "0 \<le> q" and "q \<le> 100"
  shows "0 \<le> numeric_round2 q \<and> numeric_round2 q \<le> 10000"
proof -
  from assms have "0 \<le> q * 100 + 1 / 2" "q * 100 + 1 / 2 < 10001" by simp_all
  then have "0 \<le> \<lfloor>q * 100 + 1 / 2\<rfloor>" "\<lfloor>q * 100 + 1 / 2\<rfloor> < 10001"
    by (simp_all add: floor_less_iff)
  with assms(1) show ?thesis by (simp add: numeric_round2_def)
qed

lemma decimal_5_2_opt_in_range:
  "score_in_range (map_option numeric_round2 v) \<Longrightarrow>
   decimal_5_2_opt v = Inr (map_option numeric_round2 v)"
  by (cases v) (auto simp: score_in_range_def decimal_5_2_opt_def decimal_5_2_def Let_def)

lemma grades_average_in_range:
  assumes "score_in_range p" and "score_in_range x"
  shows "grades_average p x = Inr (rounded_mean p x)"
proof (cases p)
  case None
  then show ?thesis by (simp add: grades_average_def rounded_mean_def)
next
  case (Some a)
  show ?thesis
  proof (cases x)
    case None
    with Some show ?thesis by (simp add: grades_average_def rounded_mean_def)
  next
    case (Some b)
    from assms \<open>p = Some a\<close> Some have ab: "0 \<le> a" "a \<le> 10000" "0 \<le> b" "b \<le> 10000"
      by (simp_all add: score_in_range_def)
    then have "0 \<le> (dec_value a + dec_value b) / 2" "(dec_value a + dec_value b) / 2 \<le> 100"
      by (simp_all add: dec_value_def)
    then have "0 \<le> numeric_round2 ((dec_value a + dec_value b) / 2)
             \<and> numeric_round2 ((dec_value a + dec_value b) / 2) \<le> 10000"
      by (rule numeric_round2_bounds)
    with \<open>p = Some a\<close> Some show ?thesis
      by (simp add: grades_average_def rounded_mean_def decimal_5_2_opt_def decimal_5_2_def)
  qed
qed

lemma score_check_iff:
  "grades_partial_score_check p \<longleftrightarrow> score_in_range p"
  "grades_exam_score_check p \<longleftrightarrow> score_in_range p"
  by (cases p; simp add: check_iff score_in_range_def)+

lemma set_score_coerced:
  assumes "score_in_range (set_score v old)"
  shows "(case v of None \<Rightarrow> Inr old | Some q \<Rightarrow> decimal_5_2_opt q) = Inr (set_score v old)"
  using assms by (cases v) (simp_all add: set_score_def decimal_5_2_opt_in_range)

lemma grades_update_row_applied:
  assumes "score_in_range (set_score (gp_partial_score pt) (g_partial_score g))"
    and "score_in_range (set_score (gp_exam_score pt) (g_exam_score g))"
  shows "grades_update_row pt g = Inr (patched_grade pt g)"
  using assms
  by (simp add: grades_update_row_def set_score_coerced grades_average_in_range
      score_check_iff patched_grade_def)

lemma collect_Inl_source: "collect f xs = Inl e \<Longrightarrow> \<exists>x\<in>set xs. f x = Inl e"
proof (induction xs)
  case Nil
  then show ?case by simp
next
  case (Cons a xs)
  then show ?case
    by (cases "f a"; cases "collect f xs") (auto simp: and_then_def)
qed

lemma varchar_not_policy: "varchar n s \<noteq> Inl PolicyViolation"
  by (simp add: varchar_def)

lemma set_varchar_not_policy: "set_varchar n v old \<noteq> Inl PolicyViolation"
  by (simp add: set_varchar_def varchar_not_policy split: option.splits)

lemma decimal_5_2_opt_not_policy: "decimal_5_2_opt v \<noteq> Inl PolicyViolation"
  by (simp add: decimal_5_2_opt_def decimal_5_2_def Let_def split: option.splits)

lemma and_then_eq_Inl:
  "and_then r f = Inl e \<longleftrightarrow> r = Inl e \<or> (\<exists>x. r = Inr x \<and> f x = Inl e)"
  by (cases r) simp_all

lemma grades_average_not_policy: "grades_average p x \<noteq> Inl PolicyViolation"
  by (simp add: grades_average_def decimal_5_2_opt_not_policy split: option.splits)

lemma rows_not_policy:
  "update_students_row spt t0 \<noteq> Inl PolicyViolation"
  "update_subjects_row jpt j0 \<noteq> Inl PolicyViolation"
  "update_attendance_row apt a0 \<noteq> Inl PolicyViolation"
  "grades_update_row gpt g0 \<noteq> Inl PolicyViolation"
proof -
  show "update_students_row spt t0 \<noteq> Inl PolicyViolation"
    by (simp add: update_students_row_def and_then_eq_Inl set_varchar_not_policy)
  show "update_subjects_row jpt j0 \<noteq> Inl PolicyViolation"
    by (simp add: update_subjects_row_def and_then_eq_Inl set_varchar_not_policy)
  show "update_attendance_row apt a0 \<noteq> Inl PolicyViolation"
    by (simp add: update_attendance_row_def)
  show "grades_update_row gpt g0 \<noteq> Inl PolicyViolation"
    by (auto simp: grades_update_row_def and_then_eq_Inl decimal_5_2_opt_not_policy
        grades_average_not_policy split: option.splits)
qed

lemma sql_update_not_policy:
  assumes "\<And>r. upd r \<noteq> Inl PolicyViolation"
  shows "sql_update allowed wher upd rows \<noteq> Inl PolicyViolation"
proof
  assume "sql_update allowed wher upd rows = Inl PolicyViolation"
  then obtain r where "(if allowed r \<and> wher r then upd r else Inr r) = Inl PolicyViolation"
    unfolding sql_update_def by (blast dest: collect_Inl_source)
  with assms show False by (auto split: if_splits)
qed

lemma varchar_opt_not_policy: "varchar_opt n v \<noteq> Inl PolicyViolation"
  using varchar_not_policy by (auto simp: varchar_opt_def split: option.splits sum.splits)

lemma permitted_not_policy_error:
  assumes "written_table st = Some (t, c)" and "may_write t d c"
  shows "exec st d \<noteq> Inl PolicyViolation"
  using assms
  by (cases st)
     (auto simp: insert_into_students_def update_students_def
        delete_from_students_def insert_into_subjects_def update_subjects_def
        delete_from_subjects_def insert_into_attendance_def update_attendance_def
        delete_from_attendance_def insert_into_grades_def update_grades_def
        delete_from_grades_def Let_def and_then_eq_Inl sql_update_not_policy rows_not_policy
        varchar_opt_not_policy decimal_5_2_opt_not_policy grades_average_not_policy
        split: option.splits if_splits)

lemma insert_student_applied:
  assumes "may_write Students d c"
    and "length fname \<le> 100" "length lname \<le> 100" "length idn \<le> 20" "length em \<le> 100"
      "length co \<le> 100"
    and "\<not> (\<exists>t\<in>set (students d). st_id t = i \<or> st_id_number t = idn)"
  shows "exec (InsertStudent c i
            \<lparr>si_first_name = Some fname, si_last_name = Some lname, si_id_number = Some idn,
             si_email = Some em, si_course = Some co\<rparr>) d =
         Inr (d\<lparr>students := students d @
           [\<lparr>st_id = i, st_first_name = fname, st_last_name = lname, st_id_number = idn,
             st_email = em, st_course = co\<rparr>]\<rparr>)"
  using assms by (simp add: insert_into_students_def varchar_opt_fits list_ex_iff)

lemma update_students_applied:
  assumes "may_write Students d c"
    and "fits 100 (sp_first_name pt) \<and> fits 100 (sp_last_name pt) \<and> fits 20 (sp_id_number pt)
         \<and> fits 100 (sp_email pt) \<and> fits 100 (sp_course pt)"
  shows "exec (UpdateStudents c w pt) d =
         (if distinct (map st_id_number (map (\<lambda>t. if w t then patched_student pt t else t) (students d)))
          then Inr (d\<lparr>students := map (\<lambda>t. if w t then patched_student pt t else t) (students d)\<rparr>)
          else Inl UniqueViolation)"
proof -
  have "update_students_row pt t = Inr (patched_student pt t)" for t
    using assms(2) by (simp add: update_students_row_def set_varchar_fits patched_student_def)
  then have "sql_update (\<lambda>t. True) w (update_students_row pt) (students d)
      = Inr (map (\<lambda>t. if w t then patched_student pt t else t) (students d))"
    by (intro sql_update_applied) simp
  with assms(1) show ?thesis by (simp add: update_students_def)
qed

lemma delete_students_applied:
  assumes "may_write Students d c"
  shows "exec (DeleteStudents c w) d =
         Inr (d\<lparr>students := filter (\<lambda>t. \<not> w t) (students d),
                attendance := filter (\<lambda>a. at_student_id a \<notin> st_id ` {t \<in> set (students d). w t})
                                (attendance d),
                grades := filter (\<lambda>g. g_student_id g \<notin> st_id ` {t \<in> set (students d). w t})
                            (grades d)\<rparr>)"
  using assms by (simp add: delete_from_students_def sql_delete_def Let_def)

lemma insert_subject_applied:
  assumes "may_write Subjects d c"
    and "length nm \<le> 100" "length ins \<le> 100"
    and "\<not> (\<exists>t\<in>set (subjects d). su_id t = i)"
  shows "exec (InsertSubject c i \<lparr>ji_name = Some nm, ji_instructor = Some ins\<rparr>) d =
         Inr (d\<lparr>subjects := subjects d @ [\<lparr>su_id = i, su_name = nm, su_instructor = ins\<rparr>]\<rparr>)"
  using assms by (simp add: insert_into_subjects_def varchar_opt_fits list_ex_iff)

lemma update_subjects_applied:
  assumes "may_write Subjects d c"
    and "fits 100 (jp_name pt) \<and> fits 100 (jp_instructor pt)"
  shows "exec (UpdateSubjects c w pt) d =
         Inr (d\<lparr>subjects := map (\<lambda>j. if w j then patched_subject pt j else j) (subjects d)\<rparr>)"
proof -
  have "update_subjects_row pt j = Inr (patched_subject pt j)" for j
    using assms(2) by (simp add: update_subjects_row_def set_varchar_fits patched_subject_def)
  then have "sql_update (\<lambda>t. True) w (update_subjects_row pt) (subjects d)
      = Inr (map (\<lambda>j. if w j then patched_subject pt j else j) (subjects d))"
    by (intro sql_update_applied) simp
  with assms(1) show ?thesis by (simp add: update_subjects_def)
qed

lemma delete_subjects_applied:
  assumes "may_write Subjects d c"
  shows "exec (DeleteSubjects c w) d =
         Inr (d\<lparr>subjects := filter (\<lambda>t. \<not> w t) (subjects d),
                attendance := filter (\<lambda>a. at_subject_id a \<notin> su_id ` {t \<in> set (subjects d). w t})
                                (attendance d),
                grades := filter (\<lambda>g. g_subject_id g \<notin> su_id ` {t \<in> set (subjects d). w t})
                            (grades d)\<rparr>)"
  using assms by (simp add: delete_from_subjects_def sql_delete_def Let_def)

lemma insert_attendance_applied:
  assumes "may_write Attendance d c"
    and "\<not> (\<exists>a\<in>set (attendance d).
            at_id a = i \<or> (at_date a = dt \<and> at_student_id a = s \<and> at_subject_id a = j))"
    and "\<exists>t\<in>set (students d). st_id t = s" and "\<exists>t\<in>set (subjects d). su_id t = j"
  shows "exec (InsertAttendance c i
            \<lparr>ai_date = Some dt, ai_present = pr, ai_student_id = Some s, ai_subject_id = Some j\<rparr>) d =
         Inr (d\<lparr>attendance := attendance d @
           [\<lparr>at_id = i, at_date = dt, at_present = set_to pr False,
             at_student_id = s, at_subject_id = j\<rparr>]\<rparr>)"
  using assms by (auto simp: insert_into_attendance_def list_ex_iff set_to_def)

lemma update_attendance_applied:
  assumes "may_write Attendance d c"
  shows "exec (UpdateAttendance c w pt) d =
         (if distinct (map (\<lambda>a. (at_date a, at_student_id a, at_subject_id a))
                (map (\<lambda>a. if w a then patched_attendance pt a else a) (attendance d)))
          then Inr (d\<lparr>attendance := map (\<lambda>a. if w a then patched_attendance pt a else a) (attendance d)\<rparr>)
          else Inl UniqueViolation)"
proof -
  have "update_attendance_row pt a = Inr (patched_attendance pt a)" for a
    by (simp add: update_attendance_row_def patched_attendance_def set_to_def)
  then have "sql_update (\<lambda>t. True) w (update_attendance_row pt) (attendance d)
      = Inr (map (\<lambda>a. if w a then patched_attendance pt a else a) (attendance d))"
    by (intro sql_update_applied) simp
  with assms(1) show ?thesis by (simp add: update_attendance_def)
qed

lemma delete_attendance_applied:
  assumes "may_write Attendance d c"
  shows "exec (DeleteAttendance c w) d = Inr (d\<lparr>attendance := filter (\<lambda>a. \<not> w a) (attendance d)\<rparr>)"
  using assms by (simp add: delete_from_attendance_def sql_delete_def)

lemma insert_grade_applied:
  assumes "may_write Grades d c"
    and "score_in_range (map_option numeric_round2 pq)"
    and "score_in_range (map_option numeric_round2 xq)"
    and "\<not> (\<exists>g\<in>set (grades d). g_id g = i \<or> (g_student_id g = s \<and> g_subject_id g = j))"
    and "\<exists>t\<in>set (students d). st_id t = s" and "\<exists>t\<in>set (subjects d). su_id t = j"
  shows "exec (InsertGrade c i
            \<lparr>gi_partial_score = pq, gi_exam_score = xq, gi_average = None,
             gi_student_id = Some s, gi_subject_id = Some j\<rparr>) d =
         Inr (d\<lparr>grades := grades d @
           [\<lparr>g_id = i, g_partial_score = map_option numeric_round2 pq,
             g_exam_score = map_option numeric_round2 xq,
             g_average = rounded_mean (map_option numeric_round2 pq) (map_option numeric_round2 xq),
             g_student_id = s, g_subject_id = j\<rparr>]\<rparr>)"
  using assms
  by (auto simp: insert_into_grades_def decimal_5_2_opt_in_range grades_average_in_range
      score_check_iff list_ex_iff)

lemma update_grades_applied:
  assumes "may_write Grades d c"
    and "gp_average pt = None
         \<and> (\<forall>g\<in>set (grades d). w g \<longrightarrow>
               score_in_range (set_score (gp_partial_score pt) (g_partial_score g))
               \<and> score_in_range (set_score (gp_exam_score pt) (g_exam_score g)))"
  shows "exec (UpdateGrades c w pt) d =
         Inr (d\<lparr>grades := map (\<lambda>g. if w g then patched_grade pt g else g) (grades d)\<rparr>)"
proof -
  have "sql_update (\<lambda>t. True) w (grades_update_row pt) (grades d)
      = Inr (map (\<lambda>g. if w g then patched_grade pt g else g) (grades d))"
    using assms(2) by (intro sql_update_applied grades_update_row_applied) auto
  with assms show ?thesis by (simp add: update_grades_def)
qed

lemma delete_grades_applied:
  assumes "may_write Grades d c"
  shows "exec (DeleteGrades c w) d = Inr (d\<lparr>grades := filter (\<lambda>g. \<not> w g) (grades d)\<rparr>)"
  using assms by (simp add: delete_from_grades_def sql_delete_def)

lemma own_profile_update_applied:
  assumes "fits 50 (pp_username pt) \<and> fits_opt 100 (pp_first_name pt)
           \<and> fits_opt 100 (pp_last_name pt) \<and> fits_opt 100 (pp_email pt)"
  shows "update_profiles (Authenticated u) w pt d =
         (if distinct (map p_username
               (map (\<lambda>p. if p_id p = u \<and> w p then patched_profile pt p else p) (profiles d)))
          then Inr (d\<lparr>profiles :=
                 map (\<lambda>p. if p_id p = u \<and> w p then patched_profile pt p else p) (profiles d)\<rparr>)
          else Inl UniqueViolation)"
proof -
  have row: "update_profiles_row (Authenticated u) pt p = Inr (patched_profile pt p)"
    if "p_id p = u" for p
    using assms that
    by (simp add: update_profiles_row_def set_varchar_fits set_varchar_opt_fits
        patched_profile_def profiles_update_policy_def Let_def)
  have "collect (\<lambda>r. if profiles_update_policy (Authenticated u) r \<and> w r
                       then update_profiles_row (Authenticated u) pt r else Inr r) (profiles d)
        = Inr (map (\<lambda>p. if p_id p = u \<and> w p then patched_profile pt p else p) (profiles d))"
    by (intro collect_map) (auto simp: profiles_update_policy_def row)
  then show ?thesis by (simp add: update_profiles_def sql_update_def)
qed

lemmas write_eval =
  school_def graded_def may_write_def may_read_def has_role_def state_after_def
  insert_into_students_def insert_into_subjects_def update_attendance_def
  update_attendance_row_def update_grades_def grades_update_row_def delete_from_grades_def
  sql_update_def sql_delete_def varchar_opt_def varchar_def
  decimal_5_2_opt_def decimal_5_2_def numeric_round2_def dec_value_def grades_average_def
  grades_partial_score_check_def grades_exam_score_check_def check_passes_def sql_and_def
  sql_ge_def sql_le_def floor_numeral_quotient
  fits_def set_to_def set_score_def score_in_range_def rounded_mean_def
  patched_student_def patched_subject_def patched_attendance_def patched_grade_def

lemma anonymous_profile_update:
  "state_after d (update_profiles Anon w pt d) = d"
proof -
  have "sql_update (profiles_update_policy Anon) w (update_profiles_row Anon pt) (profiles d)
        = Inr (profiles d)"
    unfolding sql_update_def by (intro collect_same) (simp add: profiles_update_policy_def)
  then show ?thesis by (simp add: update_profiles_def state_after_def)
qed

section \<open>Who may read and write the four tables\<close>

text \<open>
  Claim C3. On \<^verbatim>\<open>students\<close>, \<^verbatim>\<open>subjects\<close>, \<^verbatim>\<open>attendance\<close> and \<^verbatim>\<open>grades\<close>: an
  authenticated caller may read every row; it may write exactly when it holds the admin
  or the teacher role, where holding a role is what \<^verbatim>\<open>has_role\<close> computes, the
  existence of a \<^verbatim>\<open>user_roles\<close> row with that user and role. A statement on one of
  the four tables issued by a caller who may not write leaves the state as it was. A
  statement issued by a caller who may write is never refused by the policy, and it is
  applied: on each of the four tables an insert of a row that meets the constraints
  appends that row, an update whose values fit the columns rewrites every row that
  satisfies its condition (and only those), and a delete removes every row that
  satisfies its condition (with the rows that reference a deleted student or subject).
\<close>

theorem four_tables_read_write_policy:
  "may_read t d (Authenticated u)
   \<and> (may_write t d (Authenticated u) \<longleftrightarrow> has_role d u Admin \<or> has_role d u Teacher)
   \<and> (has_role d u r \<longleftrightarrow> (\<exists>x\<in>set (user_roles d). ur_user_id x = u \<and> ur_role x = r))
   \<and> (written_table st = Some (t, c) \<and> \<not> may_write t d c \<longrightarrow> state_after d (exec st d) = d)
   \<and> (written_table st = Some (t, c) \<and> may_write t d c \<longrightarrow> exec st d \<noteq> Inl PolicyViolation)
   \<and> (may_write Students d c \<longrightarrow>
        (length fname \<le> 100 \<and> length lname \<le> 100 \<and> length idn \<le> 20 \<and> length em \<le> 100
           \<and> length co \<le> 100
           \<and> \<not> (\<exists>t\<in>set (students d). st_id t = i \<or> st_id_number t = idn) \<longrightarrow>
         exec (InsertStudent c i
            \<lparr>si_first_name = Some fname, si_last_name = Some lname, si_id_number = Some idn,
             si_email = Some em, si_course = Some co\<rparr>) d =
         Inr (d\<lparr>students := students d @
           [\<lparr>st_id = i, st_first_name = fname, st_last_name = lname, st_id_number = idn,
             st_email = em, st_course = co\<rparr>]\<rparr>))
        \<and> (fits 100 (sp_first_name spt) \<and> fits 100 (sp_last_name spt)
           \<and> fits 20 (sp_id_number spt) \<and> fits 100 (sp_email spt) \<and> fits 100 (sp_course spt) \<longrightarrow>
         exec (UpdateStudents c ws spt) d =
         (if distinct (map st_id_number
               (map (\<lambda>t. if ws t then patched_student spt t else t) (students d)))
          then Inr (d\<lparr>students :=
                 map (\<lambda>t. if ws t then patched_student spt t else t) (students d)\<rparr>)
          else Inl UniqueViolation))
        \<and> exec (DeleteStudents c ws) d =
         Inr (d\<lparr>students := filter (\<lambda>t. \<not> ws t) (students d),
                attendance :=
                  filter (\<lambda>a. at_student_id a \<notin> st_id ` {t \<in> set (students d). ws t})
                    (attendance d),
                grades :=
                  filter (\<lambda>g. g_student_id g \<notin> st_id ` {t \<in> set (students d). ws t})
                    (grades d)\<rparr>))
   \<and> (may_write Subjects d c \<longrightarrow>
        (length nm \<le> 100 \<and> length ins \<le> 100 \<and> \<not> (\<exists>t\<in>set (subjects d). su_id t = i) \<longrightarrow>
         exec (InsertSubject c i \<lparr>ji_name = Some nm, ji_instructor = Some ins\<rparr>) d =
         Inr (d\<lparr>subjects := subjects d @ [\<lparr>su_id = i, su_name = nm, su_instructor = ins\<rparr>]\<rparr>))
        \<and> (fits 100 (jp_name jpt) \<and> fits 100 (jp_instructor jpt) \<longrightarrow>
         exec (UpdateSubjects c wj jpt) d =
         Inr (d\<lparr>subjects := map (\<lambda>j. if wj j then patched_subject jpt j else j) (subjects d)\<rparr>))
        \<and> exec (DeleteSubjects c wj) d =
         Inr (d\<lparr>subjects := filter (\<lambda>t. \<not> wj t) (subjects d),
                attendance :=
                  filter (\<lambda>a. at_subject_id a \<notin> su_id ` {t \<in> set (subjects d). wj t})
                    (attendance d),
                grades :=
                  filter (\<lambda>g. g_subject_id g \<notin> su_id ` {t \<in> set (subjects d). wj t})
                    (grades d)\<rparr>))
   \<and> (may_write Attendance d c \<longrightarrow>
        (\<not> (\<exists>a\<in>set (attendance d).
               at_id a = i \<or> (at_date a = dt \<and> at_student_id a = s \<and> at_subject_id a = j))
           \<and> (\<exists>t\<in>set (students d). st_id t = s) \<and> (\<exists>t\<in>set (subjects d). su_id t = j) \<longrightarrow>
         exec (InsertAttendance c i
            \<lparr>ai_date = Some dt, ai_present = pr, ai_student_id = Some s, ai_subject_id = Some j\<rparr>) d =
         Inr (d\<lparr>attendance := attendance d @
           [\<lparr>at_id = i, at_date = dt, at_present = set_to pr False,
             at_student_id = s, at_subject_id = j\<rparr>]\<rparr>))
        \<and> exec (UpdateAttendance c wa apt) d =
         (if distinct (map (\<lambda>a. (at_date a, at_student_id a, at_subject_id a))
                (map (\<lambda>a. if wa a then patched_attendance apt a else a) (attendance d)))
          then Inr (d\<lparr>attendance :=
                 map (\<lambda>a. if wa a then patched_attendance apt a else a) (attendance d)\<rparr>)
          else Inl UniqueViolation)
        \<and> exec (DeleteAttendance c wa) d =
         Inr (d\<lparr>attendance := filter (\<lambda>a. \<not> wa a) (attendance d)\<rparr>))
   \<and> (may_write Grades d c \<longrightarrow>
        (score_in_range (map_option numeric_round2 pq)
           \<and> score_in_range (map_option numeric_round2 xq)
           \<and> \<not> (\<exists>g\<in>set (grades d). g_id g = i \<or> (g_student_id g = s \<and> g_subject_id g = j))
           \<and> (\<exists>t\<in>set (students d). st_id t = s) \<and> (\<exists>t\<in>set (subjects d). su_id t = j) \<longrightarrow>
         exec (InsertGrade c i
            \<lparr>gi_partial_score = pq, gi_exam_score = xq, gi_average = None,
             gi_student_id = Some s, gi_subject_id = Some j\<rparr>) d =
         Inr (d\<lparr>grades := grades d @
           [\<lparr>g_id = i, g_partial_score = map_option numeric_round2 pq,
             g_exam_score = map_option numeric_round2 xq,
             g_average = rounded_mean (map_option numeric_round2 pq) (map_option numeric_round2 xq),
             g_student_id = s, g_subject_id = j\<rparr>]\<rparr>))
        \<and> (gp_average gpt = None
           \<and> (\<forall>g\<in>set (grades d). wg g \<longrightarrow>
                 score_in_range (set_score (gp_partial_score gpt) (g_partial_score g))
                 \<and> score_in_range (set_score (gp_exam_score gpt) (g_exam_score g))) \<longrightarrow>
         exec (UpdateGrades c wg gpt) d =
         Inr (d\<lparr>grades := map (\<lambda>g. if wg g then patched_grade gpt g else g) (grades d)\<rparr>))
        \<and> exec (DeleteGrades c wg) d =
         Inr (d\<lparr>grades := filter (\<lambda>g. \<not> wg g) (grades d)\<rparr>))"
proof (intro conjI impI)
  show "may_read t d (Authenticated u)"
    by (cases t) (simp_all add: may_read_def)
  show "may_write t d (Authenticated u) \<longleftrightarrow> has_role d u Admin \<or> has_role d u Teacher"
    by (cases t) (simp_all add: may_write_def)
  show "has_role d u r \<longleftrightarrow> (\<exists>x\<in>set (user_roles d). ur_user_id x = u \<and> ur_role x = r)"
    by (rule has_role_iff)
  show "state_after d (exec st d) = d"
    if "written_table st = Some (t, c) \<and> \<not> may_write t d c"
    using that by (simp add: denied_write_keeps_state)
  show "exec st d \<noteq> Inl PolicyViolation"
    if "written_table st = Some (t, c) \<and> may_write t d c"
    using that by (simp add: permitted_not_policy_error)
  show "exec (UpdateGrades c wg gpt) d =
         Inr (d\<lparr>grades := map (\<lambda>g. if wg g then patched_grade gpt g else g) (grades d)\<rparr>)"
    if "may_write Grades d c"
      and "gp_average gpt = None
           \<and> (\<forall>g\<in>set (grades d). wg g \<longrightarrow>
                 score_in_range (set_score (gp_partial_score gpt) (g_partial_score g))
                 \<and> score_in_range (set_score (gp_exam_score gpt) (g_exam_score g)))"
    using that by (rule update_grades_applied)
qed (simp_all only: insert_student_applied update_students_applied delete_students_applied
       insert_subject_applied update_subjects_applied delete_subjects_applied
       insert_attendance_applied update_attendance_applied delete_attendance_applied
       insert_grade_applied update_grades_applied delete_grades_applied not_False_eq_True)

theorem four_tables_read_write_policy_witness:
  "written_table (InsertStudent (Authenticated ''u2'') ''s3''
       \<lparr>si_first_name = Some ''Ida'', si_last_name = Some ''Roy'', si_id_number = Some ''0003'',
        si_email = Some ''ida@school.org'', si_course = Some ''1A''\<rparr>)
     = Some (Students, Authenticated ''u2'')
   \<and> \<not> may_write Students graded (Authenticated ''u2'')
   \<and> (\<exists>x\<in>set (user_roles graded). ur_user_id x = ''u1'' \<and> ur_role x = Teacher)
   \<and> may_read Students graded (Authenticated ''u2'')
   \<and> state_after graded (exec (InsertStudent (Authenticated ''u2'') ''s3''
       \<lparr>si_first_name = Some ''Ida'', si_last_name = Some ''Roy'', si_id_number = Some ''0003'',
        si_email = Some ''ida@school.org'', si_course = Some ''1A''\<rparr>) graded) = graded
   \<and> may_write Students graded (Authenticated ''u1'')
   \<and> may_write Subjects graded (Authenticated ''u1'')
   \<and> may_write Attendance graded (Authenticated ''u1'')
   \<and> may_write Grades graded (Authenticated ''u1'')
   \<and> \<not> (\<exists>t\<in>set (students graded). st_id t = ''s3'' \<or> st_id_number t = ''0003'')
   \<and> exec (InsertStudent (Authenticated ''u1'') ''s3''
       \<lparr>si_first_name = Some ''Ida'', si_last_name = Some ''Roy'', si_id_number = Some ''0003'',
        si_email = Some ''ida@school.org'', si_course = Some ''1A''\<rparr>) graded
     = Inr (graded\<lparr>students := students graded @
         [\<lparr>st_id = ''s3'', st_first_name = ''Ida'', st_last_name = ''Roy'',
           st_id_number = ''0003'', st_email = ''ida@school.org'', st_course = ''1A''\<rparr>]\<rparr>)
   \<and> exec (InsertSubject (Authenticated ''u1'') ''s3''
       \<lparr>ji_name = Some ''Physics'', ji_instructor = Some ''Ana''\<rparr>) graded
     = Inr (graded\<lparr>subjects := subjects graded @
         [\<lparr>su_id = ''s3'', su_name = ''Physics'', su_instructor = ''Ana''\<rparr>]\<rparr>)
   \<and> exec (UpdateAttendance (Authenticated ''u1'') (\<lambda>a. at_id a = ''a1'')
       \<lparr>ap_date = None, ap_present = Some False\<rparr>) graded
     = Inr (graded\<lparr>attendance :=
         [\<lparr>at_id = ''a1'', at_date = 7, at_present = False, at_student_id = ''s1'',
           at_subject_id = ''j1''\<rparr>]\<rparr>)
   \<and> gp_average \<lparr>gp_partial_score = Some (Some 70), gp_exam_score = None, gp_average = None\<rparr> = None
   \<and> list_all (\<lambda>g. score_in_range (set_score (Some (Some 70)) (g_partial_score g))
                    \<and> score_in_range (set_score None (g_exam_score g))) (grades graded)
   \<and> exec (UpdateGrades (Authenticated ''u1'') (\<lambda>g. g_id g = ''g1'')
       \<lparr>gp_partial_score = Some (Some 70), gp_exam_score = None, gp_average = None\<rparr>) graded
     = Inr (graded\<lparr>grades :=
         [\<lparr>g_id = ''g1'', g_partial_score = Some 7000, g_exam_score = Some 9000,
           g_average = Some 8000, g_student_id = ''s1'', g_subject_id = ''j1''\<rparr>]\<rparr>)
   \<and> exec (DeleteGrades (Authenticated ''u1'') (\<lambda>g. g_id g = ''g1'')) graded
     = Inr (graded\<lparr>grades := []\<rparr>)"
  using four_tables_read_write_policy [where t = Students and d = graded and u = "''u2''"
      and r = Teacher and c = "Authenticated ''u2''"
      and st = "InsertStudent (Authenticated ''u2'') ''s3''
       \<lparr>si_first_name = Some ''Ida'', si_last_name = Some ''Roy'', si_id_number = Some ''0003'',
        si_email = Some ''ida@school.org'', si_course = Some ''1A''\<rparr>"
      and i = "''s3''" and fname = "''Ida''" and lname = "''Roy''" and idn = "''0003''"
      and em = "''ida@school.org''" and co = "''1A''" and ws = "\<lambda>t. False"
      and spt = "\<lparr>sp_first_name = None, sp_last_name = None, sp_id_number = None,
                 sp_email = None, sp_course = None\<rparr>"
      and nm = "''Physics''" and ins = "''Ana''" and wj = "\<lambda>t. False"
      and jpt = "\<lparr>jp_name = None, jp_instructor = None\<rparr>"
      and dt = 8 and pr = None and s = "''s2''" and j = "''j1''"
      and wa = "\<lambda>a. at_id a = ''a1''" and apt = "\<lparr>ap_date = None, ap_present = Some False\<rparr>"
      and pq = "Some 70" and xq = None and wg = "\<lambda>g. g_id g = ''g1''"
      and gpt = "\<lparr>gp_partial_score = Some (Some 70), gp_exam_score = None, gp_average = None\<rparr>"]
    four_tables_read_write_policy [where t = Students and d = graded and u = "''u1''"
      and r = Teacher and c = "Authenticated ''u1''"
      and st = "DeleteGrades (Authenticated ''u1'') (\<lambda>g. g_id g = ''g1'')"
      and i = "''s3''" and fname = "''Ida''" and lname = "''Roy''" and idn = "''0003''"
      and em = "''ida@school.org''" and co = "''1A''" and ws = "\<lambda>t. False"
      and spt = "\<lparr>sp_first_name = None, sp_last_name = None, sp_id_number = None,
                 sp_email = None, sp_course = None\<rparr>"
      and nm = "''Physics''" and ins = "''Ana''" and wj = "\<lambda>t. False"
      and jpt = "\<lparr>jp_name = None, jp_instructor = None\<rparr>"
      and dt = 8 and pr = None and s = "''s2''" and j = "''j1''"
      and wa = "\<lambda>a. at_id a = ''a1''" and apt = "\<lparr>ap_date = None, ap_present = Some False\<rparr>"
      and pq = "Some 70" and xq = None and wg = "\<lambda>g. g_id g = ''g1''"
      and gpt = "\<lparr>gp_partial_score = Some (Some 70), gp_exam_score = None, gp_average = None\<rparr>"]
  by (simp add: write_eval)

section \<open>The generated average\<close>

text \<open>
  Claim C1, as the code has it. After any statement that succeeds, every grade row
  stores as its average the mean of its two stored scores rounded to two decimal
  places, ties away from zero, and NULL when a score is NULL: the rows the statement
  inserted or updated have it recomputed, and the others keep it. The rounded mean is
  the mean itself when the two scores add up to an even number of hundredths. Inserting
  the scores 80 and 90 stores the average 85.00.
\<close>

theorem stored_average_is_rounded_mean:
  assumes "\<forall>g\<in>set (grades d). average_generated g"
    and "exec st d = Inr d'"
    and "g \<in> set (grades d')"
  shows "g_average g =
           (case (g_partial_score g, g_exam_score g) of
              (Some a, Some b) \<Rightarrow> Some (numeric_round2 ((dec_value a + dec_value b) / 2))
            | _ \<Rightarrow> None)
       \<and> (\<forall>a b. g_partial_score g = Some a \<and> g_exam_score g = Some b \<and> even (a + b) \<longrightarrow>
             (\<exists>v. g_average g = Some v \<and> dec_value v = (dec_value a + dec_value b) / 2))
       \<and> (\<forall>c i s j. st = InsertGrade c i
               \<lparr>gi_partial_score = Some 80, gi_exam_score = Some 90, gi_average = None,
                gi_student_id = s, gi_subject_id = j\<rparr> \<longrightarrow>
             g_average (last (grades d')) = Some 8500)"
proof -
  have gen: "average_generated g"
  proof (cases st)
    case (InsertGrade c i inp)
    with assms(2) obtain g0 where "grades d' = grades d @ [g0]" "average_generated g0"
      by (auto dest: insert_into_grades_rows)
    with assms(1,3) show ?thesis by auto
  next
    case (UpdateGrades c w pt)
    with assms(2,3) have "g \<in> set (grades d) \<or> average_generated g"
      by (auto dest: update_grades_rows)
    with assms(1) show ?thesis by auto
  qed (use assms other_statements_grades in blast)+
  then have first: "g_average g =
           (case (g_partial_score g, g_exam_score g) of
              (Some a, Some b) \<Rightarrow> Some (numeric_round2 ((dec_value a + dec_value b) / 2))
            | _ \<Rightarrow> None)"
    by (simp add: average_generated_def)
  have second: "\<exists>v. g_average g = Some v \<and> dec_value v = (dec_value a + dec_value b) / 2"
    if "g_partial_score g = Some a \<and> g_exam_score g = Some b \<and> even (a + b)" for a b
    using that first by (simp add: numeric_round2_even_mean)
  have third: "g_average (last (grades d')) = Some 8500"
    if "st = InsertGrade c i
               \<lparr>gi_partial_score = Some 80, gi_exam_score = Some 90, gi_average = None,
                gi_student_id = s, gi_subject_id = j\<rparr>" for c i s j
    using that assms(2)
    by (auto simp: grade_eval and_then_eq_Inr split: if_splits option.splits)
  from first second third show ?thesis by blast
qed

text \<open>
  In the example the insert of 80 and 90 stores 85.00, and setting the partial score of
  that row to 70 stores the new average 80.00.
\<close>

theorem stored_average_is_rounded_mean_witness:
  "list_all average_generated (grades graded)
   \<and> exec (InsertGrade (Authenticated ''u1'') ''g1''
        \<lparr>gi_partial_score = Some 80, gi_exam_score = Some 90, gi_average = None,
         gi_student_id = Some ''s1'', gi_subject_id = Some ''j1''\<rparr>) school = Inr graded
   \<and> exec (UpdateGrades (Authenticated ''u1'') (\<lambda>g. g_id g = ''g1'')
        \<lparr>gp_partial_score = Some (Some 70), gp_exam_score = None, gp_average = None\<rparr>) graded
     = Inr (school\<lparr>grades :=
         [\<lparr>g_id = ''g1'', g_partial_score = Some 7000, g_exam_score = Some 9000,
           g_average = Some 8000, g_student_id = ''s1'', g_subject_id = ''j1''\<rparr>]\<rparr>)
   \<and> dec_value 8000 = (dec_value 7000 + dec_value 9000) / 2"
  using stored_average_is_rounded_mean [of graded
      "UpdateGrades (Authenticated ''u1'') (\<lambda>g. g_id g = ''g1'')
        \<lparr>gp_partial_score = Some (Some 70), gp_exam_score = None, gp_average = None\<rparr>"
      "school\<lparr>grades :=
         [\<lparr>g_id = ''g1'', g_partial_score = Some 7000, g_exam_score = Some 9000,
           g_average = Some 8000, g_student_id = ''s1'', g_subject_id = ''j1''\<rparr>]\<rparr>"
      "\<lparr>g_id = ''g1'', g_partial_score = Some 7000, g_exam_score = Some 9000,
           g_average = Some 8000, g_student_id = ''s1'', g_subject_id = ''j1''\<rparr>"]
  by (simp add: graded_def school_def average_generated_def grade_eval)

text \<open>
  The average is not always the mean: the scores 80.01 and 90.00 have the mean 85.005,
  and the column stores 85.01.
\<close>

theorem stored_average_is_mean_counterexample:
  "exec (InsertGrade (Authenticated ''u1'') ''g1''
        \<lparr>gi_partial_score = Some (8001 / 100), gi_exam_score = Some 90, gi_average = None,
         gi_student_id = Some ''s1'', gi_subject_id = Some ''j1''\<rparr>) school
     = Inr (school\<lparr>grades :=
         [\<lparr>g_id = ''g1'', g_partial_score = Some 8001, g_exam_score = Some 9000,
           g_average = Some 8501, g_student_id = ''s1'', g_subject_id = ''j1''\<rparr>]\<rparr>)
   \<and> dec_value 8501 \<noteq> (dec_value 8001 + dec_value 9000) / 2"
  by (simp add: school_def grade_eval)

section \<open>Duplicate keys\<close>

text \<open>
  Claim C2. An insert of a grade for a student and subject that already have a grade
  row is rejected, and so is an insert of an attendance record for a date, student and
  subject that already have one; an attendance insert for the same student and subject
  on a date that has no record yet succeeds (the caller may write, the references of
  the table are intact, the new id is unused). A rejected statement leaves the state as
  it was.
\<close>

theorem duplicates_rejected:
  "((\<exists>g\<in>set (grades d). g_student_id g = s \<and> g_subject_id g = j)
      \<and> gi_student_id inp = Some s \<and> gi_subject_id inp = Some j \<longrightarrow>
        (\<exists>e. insert_into_grades c i inp d = Inl e)
        \<and> state_after d (insert_into_grades c i inp d) = d)
   \<and> ((\<exists>a\<in>set (attendance d). at_date a = dt \<and> at_student_id a = s \<and> at_subject_id a = j)
      \<and> ai_date ainp = Some dt \<and> ai_student_id ainp = Some s \<and> ai_subject_id ainp = Some j \<longrightarrow>
        (\<exists>e. insert_into_attendance c i ainp d = Inl e)
        \<and> state_after d (insert_into_attendance c i ainp d) = d)
   \<and> (references_ok d \<and> may_write Attendance d c
      \<and> (\<exists>a\<in>set (attendance d). at_date a \<noteq> dt' \<and> at_student_id a = s \<and> at_subject_id a = j)
      \<and> \<not> (\<exists>a\<in>set (attendance d).
            at_id a = i \<or> (at_date a = dt' \<and> at_student_id a = s \<and> at_subject_id a = j)) \<longrightarrow>
        insert_into_attendance c i
           \<lparr>ai_date = Some dt', ai_present = pr, ai_student_id = Some s, ai_subject_id = Some j\<rparr> d
         = Inr (d\<lparr>attendance := attendance d @
             [\<lparr>at_id = i, at_date = dt',
               at_present = (case pr of None \<Rightarrow> False | Some b \<Rightarrow> b),
               at_student_id = s, at_subject_id = j\<rparr>]\<rparr>))
   \<and> (exec st d = Inl e \<longrightarrow> state_after d (exec st d) = d)"
proof (intro conjI impI)
  assume h: "(\<exists>g\<in>set (grades d). g_student_id g = s \<and> g_subject_id g = j)
      \<and> gi_student_id inp = Some s \<and> gi_subject_id inp = Some j"
  then show "\<exists>e. insert_into_grades c i inp d = Inl e"
    by (blast intro: duplicate_grade_rejected)
  then show "state_after d (insert_into_grades c i inp d) = d"
    by (auto simp: state_after_def)
next
  assume h: "(\<exists>a\<in>set (attendance d). at_date a = dt \<and> at_student_id a = s \<and> at_subject_id a = j)
      \<and> ai_date ainp = Some dt \<and> ai_student_id ainp = Some s \<and> ai_subject_id ainp = Some j"
  then show "\<exists>e. insert_into_attendance c i ainp d = Inl e"
    by (blast intro: duplicate_attendance_rejected)
  then show "state_after d (insert_into_attendance c i ainp d) = d"
    by (auto simp: state_after_def)
next
  assume "references_ok d \<and> may_write Attendance d c
      \<and> (\<exists>a\<in>set (attendance d). at_date a \<noteq> dt' \<and> at_student_id a = s \<and> at_subject_id a = j)
      \<and> \<not> (\<exists>a\<in>set (attendance d).
            at_id a = i \<or> (at_date a = dt' \<and> at_student_id a = s \<and> at_subject_id a = j))"
  then show "insert_into_attendance c i
           \<lparr>ai_date = Some dt', ai_present = pr, ai_student_id = Some s, ai_subject_id = Some j\<rparr> d
         = Inr (d\<lparr>attendance := attendance d @
             [\<lparr>at_id = i, at_date = dt',
               at_present = (case pr of None \<Rightarrow> False | Some b \<Rightarrow> b),
               at_student_id = s, at_subject_id = j\<rparr>]\<rparr>)"
    by (intro other_date_accepted) blast+
next
  assume "exec st d = Inl e"
  then show "state_after d (exec st d) = d" by (simp add: state_after_def)
qed

theorem duplicates_rejected_witness:
  "(\<exists>g\<in>set (grades graded). g_student_id g = ''s1'' \<and> g_subject_id g = ''j1'')
   \<and> insert_into_grades (Authenticated ''u1'') ''g2''
        \<lparr>gi_partial_score = Some 50, gi_exam_score = Some 60, gi_average = None,
         gi_student_id = Some ''s1'', gi_subject_id = Some ''j1''\<rparr> graded = Inl UniqueViolation
   \<and> (\<exists>a\<in>set (attendance graded). at_date a = 7 \<and> at_student_id a = ''s1'' \<and> at_subject_id a = ''j1'')
   \<and> insert_into_attendance (Authenticated ''u1'') ''a2''
        \<lparr>ai_date = Some 7, ai_present = Some False, ai_student_id = Some ''s1'',
         ai_subject_id = Some ''j1''\<rparr> graded = Inl UniqueViolation
   \<and> references_ok graded \<and> may_write Attendance graded (Authenticated ''u1'')
   \<and> (\<exists>a\<in>set (attendance graded). at_date a \<noteq> 8 \<and> at_student_id a = ''s1'' \<and> at_subject_id a = ''j1'')
   \<and> \<not> (\<exists>a\<in>set (attendance graded).
            at_id a = ''a2'' \<or> (at_date a = 8 \<and> at_student_id a = ''s1'' \<and> at_subject_id a = ''j1''))
   \<and> insert_into_attendance (Authenticated ''u1'') ''a2''
        \<lparr>ai_date = Some 8, ai_present = Some False, ai_student_id = Some ''s1'',
         ai_subject_id = Some ''j1''\<rparr> graded
      = Inr (graded\<lparr>attendance := attendance graded @
             [\<lparr>at_id = ''a2'', at_date = 8, at_present = False,
               at_student_id = ''s1'', at_subject_id = ''j1''\<rparr>]\<rparr>)
   \<and> state_after graded (exec (InsertAttendance (Authenticated ''u1'') ''a2''
        \<lparr>ai_date = Some 7, ai_present = Some False, ai_student_id = Some ''s1'',
         ai_subject_id = Some ''j1''\<rparr>) graded) = graded"
  using duplicates_rejected [of graded "''s1''" "''j1''"
        "\<lparr>gi_partial_score = Some 50, gi_exam_score = Some 60, gi_average = None,
         gi_student_id = Some ''s1'', gi_subject_id = Some ''j1''\<rparr>"
        "Authenticated ''u1''" "''g2''" 7
        "\<lparr>ai_date = Some 7, ai_present = Some False, ai_student_id = Some ''s1'',
         ai_subject_id = Some ''j1''\<rparr>" 8 "Some False"
        "InsertAttendance (Authenticated ''u1'') ''a2''
        \<lparr>ai_date = Some 7, ai_present = Some False, ai_student_id = Some ''s1'',
         ai_subject_id = Some ''j1''\<rparr>" UniqueViolation]
     duplicates_rejected [of graded "''s1''" "''j1''"
        "\<lparr>gi_partial_score = Some 50, gi_exam_score = Some 60, gi_average = None,
         gi_student_id = Some ''s1'', gi_subject_id = Some ''j1''\<rparr>"
        "Authenticated ''u1''" "''a2''" 7
        "\<lparr>ai_date = Some 7, ai_present = Some False, ai_student_id = Some ''s1'',
         ai_subject_id = Some ''j1''\<rparr>" 8 "Some False"
        "InsertAttendance (Authenticated ''u1'') ''a2''
        \<lparr>ai_date = Some 7, ai_present = Some False, ai_student_id = Some ''s1'',
         ai_subject_id = Some ''j1''\<rparr>" UniqueViolation]
  by (simp add: store_eval grade_eval)

section \<open>The range of the scores\<close>

text \<open>
  Claim C4, as the code has it. A score is checked as the column stores it, rounded to
  two decimal places: it is outside the range exactly when it is at most -0.005 or at
  least 100.005. An insert that supplies such a score fails and leaves the state as it
  was. An update that sets such a score leaves the state as it was, and it fails when
  it reaches a row: when the caller may write to the table and some row satisfies the
  condition of the update. A statement that supplies a value for the average fails.
  (Lemma \<open>stored_scores_in_range\<close>: no statement leaves a score outside the range in the
  table.)
\<close>

theorem grades_score_range_enforced:
  "(outside_range (Some q) \<longleftrightarrow> q \<le> - (1 / 200) \<or> 100 + 1 / 200 \<le> q)
   \<and> (outside_range (gi_partial_score inp) \<or> outside_range (gi_exam_score inp) \<longrightarrow>
        (\<exists>e. insert_into_grades c i inp d = Inl e)
        \<and> state_after d (insert_into_grades c i inp d) = d)
   \<and> (patch_outside_range pt \<longrightarrow>
        state_after d (update_grades c w pt d) = d
        \<and> (may_write Grades d c \<and> (\<exists>g\<in>set (grades d). w g) \<longrightarrow>
             (\<exists>e. update_grades c w pt d = Inl e)))
   \<and> (gi_average inp \<noteq> None \<longrightarrow> insert_into_grades c i inp d = Inl GeneratedAlways)
   \<and> (gp_average pt \<noteq> None \<longrightarrow> update_grades c w pt d = Inl GeneratedAlways)"
proof (intro conjI impI)
  show "outside_range (Some q) \<longleftrightarrow> q \<le> - (1 / 200) \<or> 100 + 1 / 200 \<le> q"
    by (rule outside_range_iff)
  show "\<exists>e. insert_into_grades c i inp d = Inl e"
    if "outside_range (gi_partial_score inp) \<or> outside_range (gi_exam_score inp)"
    using that by (rule insert_outside_range)
  show "state_after d (insert_into_grades c i inp d) = d"
    if "outside_range (gi_partial_score inp) \<or> outside_range (gi_exam_score inp)"
    using insert_outside_range[OF that, of c i d] by (auto simp: state_after_def)
  show "state_after d (update_grades c w pt d) = d" if "patch_outside_range pt"
    using that by (rule update_outside_range(1))
  show "\<exists>e. update_grades c w pt d = Inl e"
    if "patch_outside_range pt" "may_write Grades d c \<and> (\<exists>g\<in>set (grades d). w g)"
    using update_outside_range(2)[OF that(1)] that(2) by blast
  show "insert_into_grades c i inp d = Inl GeneratedAlways" if "gi_average inp \<noteq> None"
    using that by (simp add: insert_into_grades_def)
  show "update_grades c w pt d = Inl GeneratedAlways" if "gp_average pt \<noteq> None"
    using that by (simp add: update_grades_def)
qed

theorem grades_score_range_enforced_witness:
  "outside_range (Some 150)
   \<and> insert_into_grades (Authenticated ''u1'') ''g2''
        \<lparr>gi_partial_score = Some 150, gi_exam_score = Some 90, gi_average = None,
         gi_student_id = Some ''s2'', gi_subject_id = Some ''j1''\<rparr> graded = Inl CheckViolation
   \<and> patch_outside_range \<lparr>gp_partial_score = None, gp_exam_score = Some (Some (- 1)), gp_average = None\<rparr>
   \<and> may_write Grades graded (Authenticated ''u1'')
   \<and> (\<exists>g\<in>set (grades graded). g_id g = ''g1'')
   \<and> update_grades (Authenticated ''u1'') (\<lambda>g. g_id g = ''g1'')
        \<lparr>gp_partial_score = None, gp_exam_score = Some (Some (- 1)), gp_average = None\<rparr> graded
      = Inl CheckViolation
   \<and> insert_into_grades (Authenticated ''u1'') ''g2''
        \<lparr>gi_partial_score = Some 80, gi_exam_score = Some 90, gi_average = Some (Some 99),
         gi_student_id = Some ''s2'', gi_subject_id = Some ''j1''\<rparr> graded = Inl GeneratedAlways
   \<and> update_grades (Authenticated ''u1'') (\<lambda>g. g_id g = ''g1'')
        \<lparr>gp_partial_score = None, gp_exam_score = None, gp_average = Some (Some 99)\<rparr> graded
      = Inl GeneratedAlways"
  using grades_score_range_enforced [of 150
      "\<lparr>gi_partial_score = Some 150, gi_exam_score = Some 90, gi_average = None,
         gi_student_id = Some ''s2'', gi_subject_id = Some ''j1''\<rparr>"
      "Authenticated ''u1''" "''g2''" graded
      "\<lparr>gp_partial_score = None, gp_exam_score = Some (Some (- 1)), gp_average = None\<rparr>"
      "\<lambda>g. g_id g = ''g1''"]
    grades_score_range_enforced [of 150
      "\<lparr>gi_partial_score = Some 80, gi_exam_score = Some 90, gi_average = Some (Some 99),
         gi_student_id = Some ''s2'', gi_subject_id = Some ''j1''\<rparr>"
      "Authenticated ''u1''" "''g2''" graded
      "\<lparr>gp_partial_score = None, gp_exam_score = None, gp_average = Some (Some 99)\<rparr>"
      "\<lambda>g. g_id g = ''g1''"]
  by (simp add: graded_def school_def grade_eval outside_range_def patch_outside_range_def)

text \<open>
  The score 100.004 is above 100 and the insert succeeds, storing 100.00; an update to
  150 that reaches no row succeeds.
\<close>

theorem grades_score_range_counterexample:
  "(100 :: rat) < 100004 / 1000
   \<and> insert_into_grades (Authenticated ''u1'') ''g1''
        \<lparr>gi_partial_score = Some (100004 / 1000), gi_exam_score = Some 90, gi_average = None,
         gi_student_id = Some ''s1'', gi_subject_id = Some ''j1''\<rparr> school
     = Inr (school\<lparr>grades :=
         [\<lparr>g_id = ''g1'', g_partial_score = Some 10000, g_exam_score = Some 9000,
           g_average = Some 9500, g_student_id = ''s1'', g_subject_id = ''j1''\<rparr>]\<rparr>)
   \<and> update_grades (Authenticated ''u1'') (\<lambda>g. g_id g = ''g1'')
        \<lparr>gp_partial_score = Some (Some 150), gp_exam_score = None, gp_average = None\<rparr> school
     = Inr school"
  by (simp add: school_def grade_eval)

section \<open>The profile of a new account\<close>

text \<open>
  Claim C5, as the code has it. When the insert of an account succeeds, exactly one
  profile row is added, it is the only one with the id of the account, and its username
  is the first 50 characters of the name \<open>n\<close>: the \<^verbatim>\<open>username\<close> of the metadata when
  there is one, the part of the e-mail address before \<^verbatim>\<open>@\<close> otherwise. So it is
  \<open>n\<close> itself when \<open>n\<close> has at most 50 characters, and beyond the 50th the name has
  only spaces.
\<close>

theorem new_account_gets_profile:
  assumes "insert_into_auth_users new d = Inr d'"
  shows "\<exists>p n. profiles d' = profiles d @ [p]
          \<and> auth_users d' = auth_users d @ [new]
          \<and> length (filter (\<lambda>q. p_id q = au_id new) (profiles d')) = 1
          \<and> p_id p = au_id new
          \<and> (case au_raw_user_meta_data new ''username'' of
                Some m \<Rightarrow> n = m
              | None \<Rightarrow> (\<exists>e. au_email new = Some e \<and> n = takeWhile (\<lambda>c. c \<noteq> CHR ''@'') e))
          \<and> p_username p = take 50 n
          \<and> (length n \<le> 50 \<longrightarrow> p_username p = n)
          \<and> (\<forall>c\<in>set (drop 50 n). c = CHR '' '')"
proof -
  let ?d = "d\<lparr>auth_users := auth_users d @ [new]\<rparr>"
  from assms have h: "handle_new_user new ?d = Inr d'"
    by (auto simp: insert_into_auth_users_def split: if_splits)
  from handle_new_user_Inr[OF h] obtain n fn ln em where
    n: "new_username new = Some n" and v: "varchar 50 n = Inr (take 50 n)"
    and fresh: "\<not> (\<exists>q\<in>set (profiles d). p_id q = au_id new)"
    and d': "d' = ?d\<lparr>profiles := profiles ?d @
                [\<lparr>p_id = au_id new, p_username = take 50 n, p_first_name = fn,
                  p_last_name = ln, p_email = em\<rparr>]\<rparr>"
    by auto
  let ?p = "\<lparr>p_id = au_id new, p_username = take 50 n, p_first_name = fn,
                  p_last_name = ln, p_email = em\<rparr>"
  from fresh have "filter (\<lambda>q. p_id q = au_id new) (profiles d) = []"
    by (auto simp: filter_empty_conv)
  with d' have one: "length (filter (\<lambda>q. p_id q = au_id new) (profiles d')) = 1" by simp
  from n have src: "(case au_raw_user_meta_data new ''username'' of
                Some m \<Rightarrow> n = m
              | None \<Rightarrow> (\<exists>e. au_email new = Some e \<and> n = takeWhile (\<lambda>c. c \<noteq> CHR ''@'') e))"
    by (auto simp: new_username_def split_part_1_def split: option.splits)
  from v have sp: "\<forall>c\<in>set (drop 50 n). c = CHR '' ''"
    by (auto dest!: varchar_Inr simp: list_all_iff)
  have "profiles d' = profiles d @ [?p] \<and> auth_users d' = auth_users d @ [new]
       \<and> length (filter (\<lambda>q. p_id q = au_id new) (profiles d')) = 1
       \<and> p_id ?p = au_id new
       \<and> (case au_raw_user_meta_data new ''username'' of
                Some m \<Rightarrow> n = m
              | None \<Rightarrow> (\<exists>e. au_email new = Some e \<and> n = takeWhile (\<lambda>c. c \<noteq> CHR ''@'') e))
       \<and> p_username ?p = take 50 n \<and> (length n \<le> 50 \<longrightarrow> p_username ?p = n)
       \<and> (\<forall>c\<in>set (drop 50 n). c = CHR '' '')"
    using d' one src sp by simp
  then show ?thesis by blast
qed

theorem new_account_gets_profile_witness:
  "insert_into_auth_users newcomer school =
     Inr (school\<lparr>auth_users := auth_users school @ [newcomer],
                profiles := profiles school @
                  [\<lparr>p_id = ''u3'', p_username = ''cy'', p_first_name = None,
                    p_last_name = None, p_email = Some ''cy@school.org''\<rparr>]\<rparr>)
   \<and> insert_into_auth_users (newcomer\<lparr>au_raw_user_meta_data := [''username'' \<mapsto> ''cyrus'']\<rparr>) school =
     Inr (school\<lparr>auth_users := auth_users school
                    @ [newcomer\<lparr>au_raw_user_meta_data := [''username'' \<mapsto> ''cyrus'']\<rparr>],
                profiles := profiles school @
                  [\<lparr>p_id = ''u3'', p_username = ''cyrus'', p_first_name = None,
                    p_last_name = None, p_email = Some ''cy@school.org''\<rparr>]\<rparr>)"
  using new_account_gets_profile [of newcomer school
     "school\<lparr>auth_users := auth_users school @ [newcomer],
                profiles := profiles school @
                  [\<lparr>p_id = ''u3'', p_username = ''cy'', p_first_name = None,
                    p_last_name = None, p_email = Some ''cy@school.org''\<rparr>]\<rparr>"]
  by (simp add: newcomer_def school_def signup_eval)

text \<open>
  A username of 50 letters and a space is stored without the space: the profile's
  username is not the one that the metadata supplied.
\<close>

theorem new_account_username_counterexample:
  "insert_into_auth_users
     (newcomer\<lparr>au_raw_user_meta_data :=
        [''username'' \<mapsto> ''aaaaaaaaaaaaaaaaaaaaaaaaaaaaaaaaaaaaaaaaaaaaaaaaaa ''] \<rparr>) school =
     Inr (school\<lparr>auth_users := auth_users school @
               [newcomer\<lparr>au_raw_user_meta_data :=
                  [''username'' \<mapsto> ''aaaaaaaaaaaaaaaaaaaaaaaaaaaaaaaaaaaaaaaaaaaaaaaaaa '']\<rparr>],
                profiles := profiles school @
                  [\<lparr>p_id = ''u3'', p_username = ''aaaaaaaaaaaaaaaaaaaaaaaaaaaaaaaaaaaaaaaaaaaaaaaaaa'',
                    p_first_name = None,
                    p_last_name = None, p_email = Some ''cy@school.org''\<rparr>]\<rparr>)
   \<and> ''aaaaaaaaaaaaaaaaaaaaaaaaaaaaaaaaaaaaaaaaaaaaaaaaaa''
       \<noteq> ''aaaaaaaaaaaaaaaaaaaaaaaaaaaaaaaaaaaaaaaaaaaaaaaaaa ''"
  by (simp add: newcomer_def school_def signup_eval)

section \<open>Cascading deletes\<close>

text \<open>
  Claim C6. Deleting a student (by a caller who may write) removes that student, every
  attendance row and every grade row that references it, and nothing else: the other
  rows of the three tables stay, in their order, and the other tables are untouched.
  The same holds for deleting a subject.
\<close>

theorem delete_cascades:
  "(may_write Students d c \<and> (\<exists>t\<in>set (students d). st_id t = sid) \<longrightarrow>
      exec (DeleteStudents c (\<lambda>t. st_id t = sid)) d =
        Inr (d\<lparr>students := filter (\<lambda>t. st_id t \<noteq> sid) (students d),
               attendance := filter (\<lambda>a. at_student_id a \<noteq> sid) (attendance d),
               grades := filter (\<lambda>g. g_student_id g \<noteq> sid) (grades d)\<rparr>))
   \<and> (may_write Subjects d c \<and> (\<exists>t\<in>set (subjects d). su_id t = jid) \<longrightarrow>
      exec (DeleteSubjects c (\<lambda>t. su_id t = jid)) d =
        Inr (d\<lparr>subjects := filter (\<lambda>t. su_id t \<noteq> jid) (subjects d),
               attendance := filter (\<lambda>a. at_subject_id a \<noteq> jid) (attendance d),
               grades := filter (\<lambda>g. g_subject_id g \<noteq> jid) (grades d)\<rparr>))"
proof (intro conjI impI)
  assume h: "may_write Students d c \<and> (\<exists>t\<in>set (students d). st_id t = sid)"
  then have "set (map st_id (filter (\<lambda>t. st_id t = sid) (students d))) = {sid}"
    by (intro gone_ids) blast
  with h show "exec (DeleteStudents c (\<lambda>t. st_id t = sid)) d =
        Inr (d\<lparr>students := filter (\<lambda>t. st_id t \<noteq> sid) (students d),
               attendance := filter (\<lambda>a. at_student_id a \<noteq> sid) (attendance d),
               grades := filter (\<lambda>g. g_student_id g \<noteq> sid) (grades d)\<rparr>)"
    by (simp add: delete_from_students_def sql_delete_def Let_def)
next
  assume h: "may_write Subjects d c \<and> (\<exists>t\<in>set (subjects d). su_id t = jid)"
  then have "set (map su_id (filter (\<lambda>t. su_id t = jid) (subjects d))) = {jid}"
    by (intro gone_ids) blast
  with h show "exec (DeleteSubjects c (\<lambda>t. su_id t = jid)) d =
        Inr (d\<lparr>subjects := filter (\<lambda>t. su_id t \<noteq> jid) (subjects d),
               attendance := filter (\<lambda>a. at_subject_id a \<noteq> jid) (attendance d),
               grades := filter (\<lambda>g. g_subject_id g \<noteq> jid) (grades d)\<rparr>)"
    by (simp add: delete_from_subjects_def sql_delete_def Let_def)
qed

theorem delete_cascades_witness:
  "may_write Students graded (Authenticated ''u1'')
   \<and> (\<exists>t\<in>set (students graded). st_id t = ''s1'')
   \<and> exec (DeleteStudents (Authenticated ''u1'') (\<lambda>t. st_id t = ''s1'')) graded =
        Inr (school\<lparr>students :=
               [\<lparr>st_id = ''s2'', st_first_name = ''Leo'', st_last_name = ''Paz'',
                 st_id_number = ''0002'', st_email = ''leo@school.org'', st_course = ''1A''\<rparr>],
             attendance := [], grades := []\<rparr>)
   \<and> may_write Subjects graded (Authenticated ''u1'')
   \<and> (\<exists>t\<in>set (subjects graded). su_id t = ''j1'')
   \<and> exec (DeleteSubjects (Authenticated ''u1'') (\<lambda>t. su_id t = ''j1'')) graded =
        Inr (school\<lparr>subjects := [], attendance := [], grades := []\<rparr>)"
  using delete_cascades [of graded "Authenticated ''u1''" "''s1''" "''j1''"]
  by (simp add: store_eval)

section \<open>Profiles\<close>

text \<open>
  Claim C7. An authenticated caller may read every profile row; it may update a row
  exactly when the id of the row is its own. An update it issues leaves every row of
  another account as it was, and it is applied to its own row: when the new values fit
  the columns, the rows with the caller's id that satisfy the condition of the update
  are rewritten with the new values, every other row is kept, and the statement fails
  only when it would leave two profiles with one username. An anonymous update changes
  nothing.
\<close>

theorem profiles_policy:
  "profiles_view_policy (Authenticated u) p
   \<and> (profiles_update_policy (Authenticated u) p \<longleftrightarrow> p_id p = u)
   \<and> (update_profiles (Authenticated u) w pt d = Inr d' \<longrightarrow>
        map p_id (profiles d') = map p_id (profiles d)
        \<and> filter (\<lambda>p. p_id p \<noteq> u) (profiles d') = filter (\<lambda>p. p_id p \<noteq> u) (profiles d))
   \<and> (fits 50 (pp_username pt) \<and> fits_opt 100 (pp_first_name pt)
        \<and> fits_opt 100 (pp_last_name pt) \<and> fits_opt 100 (pp_email pt) \<longrightarrow>
        update_profiles (Authenticated u) w pt d =
         (if distinct (map p_username
               (map (\<lambda>p. if p_id p = u \<and> w p then patched_profile pt p else p) (profiles d)))
          then Inr (d\<lparr>profiles :=
                 map (\<lambda>p. if p_id p = u \<and> w p then patched_profile pt p else p) (profiles d)\<rparr>)
          else Inl UniqueViolation))
   \<and> state_after d (update_profiles Anon w pt d) = d"
proof (intro conjI impI)
  show "profiles_view_policy (Authenticated u) p"
    by (simp add: profiles_view_policy_def)
  show "profiles_update_policy (Authenticated u) p \<longleftrightarrow> p_id p = u"
    by (auto simp: profiles_update_policy_def)
  show "state_after d (update_profiles Anon w pt d) = d"
    by (rule anonymous_profile_update)
  show "update_profiles (Authenticated u) w pt d =
         (if distinct (map p_username
               (map (\<lambda>p. if p_id p = u \<and> w p then patched_profile pt p else p) (profiles d)))
          then Inr (d\<lparr>profiles :=
                 map (\<lambda>p. if p_id p = u \<and> w p then patched_profile pt p else p) (profiles d)\<rparr>)
          else Inl UniqueViolation)"
    if "fits 50 (pp_username pt) \<and> fits_opt 100 (pp_first_name pt)
        \<and> fits_opt 100 (pp_last_name pt) \<and> fits_opt 100 (pp_email pt)"
    using that by (rule own_profile_update_applied)
  assume "update_profiles (Authenticated u) w pt d = Inr d'"
  then obtain ps where "sql_update (profiles_update_policy (Authenticated u)) w
      (update_profiles_row (Authenticated u) pt) (profiles d) = Inr ps" and "profiles d' = ps"
    by (auto simp: update_profiles_def and_then_eq_Inr split: if_splits)
  then have *: "map p_id (profiles d') = map p_id (profiles d)
        \<and> filter (\<lambda>p. p_id p \<noteq> u) (profiles d') = filter (\<lambda>p. p_id p \<noteq> u) (profiles d)"
    using update_profiles_others[of u w pt "profiles d" ps] by (simp add: sql_update_def)
  from * show "map p_id (profiles d') = map p_id (profiles d)" by simp
  from * show "filter (\<lambda>p. p_id p \<noteq> u) (profiles d') = filter (\<lambda>p. p_id p \<noteq> u) (profiles d)"
    by simp
qed

theorem profiles_policy_witness:
  "fits 50 (Some ''bobo'') \<and> fits_opt 100 (Some (Some ''Bo'')) \<and> fits_opt 100 None
   \<and> update_profiles (Authenticated ''u2'') (\<lambda>p. True)
      \<lparr>pp_username = Some ''bobo'', pp_first_name = Some (Some ''Bo''), pp_last_name = None,
       pp_email = Some None\<rparr> school
    = Inr (school\<lparr>profiles :=
        [\<lparr>p_id = ''u1'', p_username = ''ana'', p_first_name = None, p_last_name = None,
          p_email = Some ''ana@school.org''\<rparr>,
         \<lparr>p_id = ''u2'', p_username = ''bobo'', p_first_name = Some ''Bo'', p_last_name = None,
          p_email = None\<rparr>]\<rparr>)
   \<and> update_profiles (Authenticated ''u2'') (\<lambda>p. True)
      \<lparr>pp_username = Some ''ana'', pp_first_name = None, pp_last_name = None,
       pp_email = None\<rparr> school = Inl UniqueViolation
   \<and> profiles_update_policy (Authenticated ''u2'')
        \<lparr>p_id = ''u2'', p_username = ''bo'', p_first_name = None, p_last_name = None,
          p_email = Some ''bo@school.org''\<rparr>
   \<and> \<not> profiles_update_policy (Authenticated ''u2'')
        \<lparr>p_id = ''u1'', p_username = ''ana'', p_first_name = None, p_last_name = None,
          p_email = Some ''ana@school.org''\<rparr>
   \<and> profiles_view_policy (Authenticated ''u2'')
        \<lparr>p_id = ''u1'', p_username = ''ana'', p_first_name = None, p_last_name = None,
          p_email = Some ''ana@school.org''\<rparr>"
  using profiles_policy [of "''u2''"
      "\<lparr>p_id = ''u1'', p_username = ''ana'', p_first_name = None, p_last_name = None,
          p_email = Some ''ana@school.org''\<rparr>" "\<lambda>p. True"
      "\<lparr>pp_username = Some ''bobo'', pp_first_name = Some (Some ''Bo''), pp_last_name = None,
       pp_email = Some None\<rparr>" school
      "school\<lparr>profiles :=
        [\<lparr>p_id = ''u1'', p_username = ''ana'', p_first_name = None, p_last_name = None,
          p_email = Some ''ana@school.org''\<rparr>,
         \<lparr>p_id = ''u2'', p_username = ''bobo'', p_first_name = Some ''Bo'', p_last_name = None,
          p_email = None\<rparr>]\<rparr>"]
  by (simp add: school_def update_profiles_def sql_update_def update_profiles_row_def
      profiles_update_policy_def profiles_view_policy_def set_varchar_def set_varchar_opt_def
      varchar_opt_def varchar_def fits_def fits_opt_def set_to_def patched_profile_def)

section \<open>Reloading\<close>

text \<open>
  Claim C8 says that every page fetches its table again after a successful mutation.
  The handlers of Students, Subjects and Grades do (lemmas \<open>students_page_reloads\<close>,
  \<open>subjects_page_reloads\<close>, \<open>grades_page_reloads\<close>); the save of the Attendance page
  does not: after a successful upsert it shows the notification and stops (lemma
  \<open>attendance_page_never_reloads\<close>). The example is the page with two listed students.
\<close>

theorem attendance_save_does_not_reload:
  "attendance_handleSave roll_call None =
     [AttendanceUpsert
        [\<lparr>ar_date = 8, ar_student_id = ''s1'', ar_subject_id = ''j1'', ar_present = True\<rparr>,
         \<lparr>ar_date = 8, ar_student_id = ''s2'', ar_subject_id = ''j1'', ar_present = False\<rparr>],
      Toast ''Success'' ''Attendance saved successfully'']
   \<and> \<not> reloads_after_mutation (attendance_handleSave roll_call None)"
  by (simp add: attendance_handleSave_def attendance_records_def roll_call_def school_def)

section \<open>Missing scores\<close>

text \<open>
  Claim C9. The range checks pass on a NULL score, so an insert that leaves out a score
  (and is otherwise acceptable) succeeds, and the row it stores has a NULL average.
\<close>

theorem null_score_accepted:
  assumes "gi_partial_score inp = None \<or> gi_exam_score inp = None"
    and "gi_average inp = None"
    and "decimal_5_2_opt (gi_partial_score inp) = Inr p"
    and "decimal_5_2_opt (gi_exam_score inp) = Inr x"
    and "grades_partial_score_check p" and "grades_exam_score_check x"
    and "may_write Grades d c"
    and "gi_student_id inp = Some s" and "gi_subject_id inp = Some j"
    and "\<exists>t\<in>set (students d). st_id t = s" and "\<exists>t\<in>set (subjects d). su_id t = j"
    and "\<not> (\<exists>g\<in>set (grades d). g_id g = i \<or> (g_student_id g = s \<and> g_subject_id g = j))"
  shows "grades_partial_score_check None \<and> grades_exam_score_check None
       \<and> insert_into_grades c i inp d =
           Inr (d\<lparr>grades := grades d @
             [\<lparr>g_id = i, g_partial_score = p, g_exam_score = x, g_average = None,
               g_student_id = s, g_subject_id = j\<rparr>]\<rparr>)"
proof -
  from assms(1,3,4) have "p = None \<or> x = None"
    by (auto dest: decimal_5_2_opt_Inr)
  then have "grades_average p x = Inr None"
    by (auto simp: grades_average_def split: option.splits)
  with assms show ?thesis
    by (auto simp: insert_into_grades_def list_ex_iff check_iff)
qed

theorem null_score_accepted_witness:
  "decimal_5_2_opt None = Inr None \<and> decimal_5_2_opt (Some 90) = Inr (Some 9000)
   \<and> grades_exam_score_check (Some 9000)
   \<and> may_write Grades school (Authenticated ''u1'')
   \<and> (\<exists>t\<in>set (students school). st_id t = ''s1'')
   \<and> (\<exists>t\<in>set (subjects school). su_id t = ''j1'')
   \<and> \<not> (\<exists>g\<in>set (grades graded). g_id g = ''g2'' \<or> (g_student_id g = ''s2'' \<and> g_subject_id g = ''j1''))
   \<and> insert_into_grades (Authenticated ''u1'') ''g2''
        \<lparr>gi_partial_score = None, gi_exam_score = Some 90, gi_average = None,
         gi_student_id = Some ''s2'', gi_subject_id = Some ''j1''\<rparr> graded
     = Inr (graded\<lparr>grades := grades graded @
         [\<lparr>g_id = ''g2'', g_partial_score = None, g_exam_score = Some 9000, g_average = None,
           g_student_id = ''s2'', g_subject_id = ''j1''\<rparr>]\<rparr>)"
  using null_score_accepted [of
      "\<lparr>gi_partial_score = None, gi_exam_score = Some 90, gi_average = None,
         gi_student_id = Some ''s2'', gi_subject_id = Some ''j1''\<rparr>"
      None "Some 9000" graded "Authenticated ''u1''" "''s2''" "''j1''" "''g2''"]
  by (simp add: graded_def school_def grade_eval)

section \<open>Saving attendance\<close>

text \<open>
  Claim C10. With a subject selected, saving attendance sends one record per listed
  student, in the order of the list, each for the selected date and subject; a record
  says present exactly when the box of its student is ticked, so a student whose box
  was never touched gets a record that says absent; and when the listed students have
  distinct ids, each has exactly one record.
\<close>

theorem attendance_save_one_record_per_student:
  assumes "att_selectedSubject pg \<noteq> []"
  shows "(\<exists>rest. attendance_handleSave pg err = AttendanceUpsert (attendance_records pg) # rest)
       \<and> map (\<lambda>r. (ar_date r, ar_student_id r, ar_subject_id r)) (attendance_records pg)
           = map (\<lambda>t. (att_selectedDate pg, st_id t, att_selectedSubject pg)) (att_students pg)
       \<and> (\<forall>r\<in>set (attendance_records pg).
             ar_present r = (att_attendance pg (ar_student_id r) = Some True))
       \<and> (\<forall>t\<in>set (att_students pg). att_attendance pg (st_id t) = None \<longrightarrow>
             \<lparr>ar_date = att_selectedDate pg, ar_student_id = st_id t,
              ar_subject_id = att_selectedSubject pg, ar_present = False\<rparr>
               \<in> set (attendance_records pg))
       \<and> (distinct (map st_id (att_students pg)) \<longrightarrow>
            (\<forall>t\<in>set (att_students pg).
               length (filter (\<lambda>r. ar_student_id r = st_id t) (attendance_records pg)) = 1))"
proof (intro conjI impI ballI)
  show "\<exists>rest. attendance_handleSave pg err = AttendanceUpsert (attendance_records pg) # rest"
    using assms by (simp add: attendance_handleSave_def)
  show "map (\<lambda>r. (ar_date r, ar_student_id r, ar_subject_id r)) (attendance_records pg)
           = map (\<lambda>t. (att_selectedDate pg, st_id t, att_selectedSubject pg)) (att_students pg)"
    by (simp add: attendance_records_def comp_def)
  show "ar_present r = (att_attendance pg (ar_student_id r) = Some True)"
    if "r \<in> set (attendance_records pg)" for r
    using that by (auto simp: attendance_records_def split: option.splits)
  show "\<lparr>ar_date = att_selectedDate pg, ar_student_id = st_id t,
              ar_subject_id = att_selectedSubject pg, ar_present = False\<rparr>
               \<in> set (attendance_records pg)"
    if "t \<in> set (att_students pg)" "att_attendance pg (st_id t) = None" for t
    using that by (force simp: attendance_records_def)
  show "length (filter (\<lambda>r. ar_student_id r = st_id t) (attendance_records pg)) = 1"
    if "distinct (map st_id (att_students pg))" "t \<in> set (att_students pg)" for t
    unfolding attendance_records_def using that by (rule attendance_records_once)
qed

theorem attendance_save_one_record_per_student_witness:
  "att_selectedSubject roll_call \<noteq> []
   \<and> distinct (map st_id (att_students roll_call))
   \<and> att_attendance roll_call ''s2'' = None
   \<and> attendance_records roll_call =
        [\<lparr>ar_date = 8, ar_student_id = ''s1'', ar_subject_id = ''j1'', ar_present = True\<rparr>,
         \<lparr>ar_date = 8, ar_student_id = ''s2'', ar_subject_id = ''j1'', ar_present = False\<rparr>]
   \<and> length (filter (\<lambda>r. ar_student_id r = ''s2'') (attendance_records roll_call)) = 1"
  using attendance_save_one_record_per_student [of roll_call None]
  by (simp add: attendance_records_def roll_call_def school_def)

end
